theory Spec2Isabelle
  imports Main "HOL-Library.Char_ord" "HOL-Library.List_Lexorder"
begin

section \<open>Simplates: pages, speclines, renderers and rendering\<close>

text \<open>
  A shallow embedding of \<^verbatim>\<open>aspen/simplates/simplate.py\<close>. Exceptions are values of
  the type \<open>error\<close>. A function that only computes returns \<open>error + 'a\<close>, with
  \<open>Inl\<close> for the exception; a function that executes page code or writes to a dict
  takes the store and returns its outcome together with the store it leaves, also when
  it raises. The store holds what Python mutates in place: the dicts of names (the
  caller's context, the dict the first page leaves), each identified by an address, and
  the objects that values refer to (the \<^verbatim>\<open>Output\<close> object, lists bound by page code).
\<close>

subsection \<open>Exceptions, values and the object store\<close>

type_synonym addr = nat

datatype val = NoneV | IntV int | StrV string | Ref addr

datatype error =
    SyntaxError string
  | ValueError string
  | ImportError string
  | KeyError val
  | TypeError string
  | IndexError
  | AttributeError
  | Raised string

text \<open>
  Modelled from the spec: the class \<^verbatim>\<open>Output\<close> (module \<^verbatim>\<open>aspen.output\<close>) is not
  among the sources. It is a per-call value with a media type and an optional body; a
  new Output has an unset body (\<^verbatim>\<open>None\<close>).
\<close>

record output_obj =
  media_type :: string
  body :: val

definition Output :: "string \<Rightarrow> output_obj" where
  "Output mtype = \<lparr>media_type = mtype, body = NoneV\<rparr>"

datatype obj = ListO "val list" | OutputO output_obj

type_synonym env = "string \<rightharpoonup> val"

text \<open>
  The store: the objects, addressed by their index, the contents of every dict of names,
  and the address the next new dict gets.
\<close>

record heap =
  objs :: "obj list"
  dicts :: "addr \<Rightarrow> env"
  next_dict :: addr

text \<open>
  A compiled code unit is what \<^verbatim>\<open>exec(code, context)\<close> does with it, given the
  address of the dict it is executed in: it reads and rebinds names, reads and mutates
  the store, and either raises or finishes; the store it leaves is kept in both cases.

  Modelled from the spec: the renderer classes are not among the sources. A renderer is
  a pure function of the context: it reads the names of the context and the objects,
  and returns the body or raises.
\<close>

type_synonym code = "addr \<Rightarrow> heap \<Rightarrow> (error + unit) \<times> heap"

type_synonym renderer = "env \<Rightarrow> obj list \<Rightarrow> error + val"

subsection \<open>Pages\<close>

text \<open>
  Modelled from the spec: the class \<^verbatim>\<open>Page\<close> (module \<^verbatim>\<open>pagination\<close>) is not among
  the sources. A page has a header, a content and the line offset of the content;
  \<^verbatim>\<open>Page('')\<close> is the empty page (no header, offset 0), and the padded content is the
  content prefixed with offset-many blank lines.
\<close>

record page =
  header :: string
  content :: string
  offset :: nat

definition Page :: "string \<Rightarrow> page" where
  "Page c = \<lparr>header = [], content = c, offset = 0\<rparr>"

definition padded_content :: "page \<Rightarrow> string" where
  "padded_content p = replicate (offset p) (CHR 0x0A) @ content p"

text \<open>
  \<^verbatim>\<open>parse_into_pages\<close>: the splitter \<^verbatim>\<open>split_and_escape\<close> (module \<^verbatim>\<open>pagination\<close>)
  is a parameter. With no page at all, neither \<^verbatim>\<open>npages == 1\<close> nor \<^verbatim>\<open>npages == 2\<close>
  holds and \<^verbatim>\<open>pages[1]\<close> raises IndexError. A header is true when it is not empty.
\<close>

definition parse_into_pages :: "(string \<Rightarrow> page list) \<Rightarrow> string \<Rightarrow> error + page list" where
  "parse_into_pages split_and_escape decoded =
     (let pages = split_and_escape decoded;
          npages = length pages;
          blank = [Page []]
      in if npages = 1 then Inr (blank @ blank @ pages)
         else if npages = 2 then Inr (blank @ pages)
         else if \<not> 1 < npages then Inl IndexError
         else if header (pages ! 1) \<noteq> [] then Inr (blank @ pages)
         else Inr pages)"

subsection \<open>The two patterns\<close>

text \<open>
  The patterns of \<^verbatim>\<open>renderer_re\<close> and \<^verbatim>\<open>media_type_re\<close> use three constructs: a
  bracket expression repeated once or more, a literal character and the end anchor.
  Inside brackets \<^verbatim>\<open>x-y\<close> is the range of the characters from \<^verbatim>\<open>x\<close> to \<^verbatim>\<open>y\<close>;
  a \<^verbatim>\<open>-\<close> that comes last stands for itself. The anchor \<^verbatim>\<open>$\<close> holds at the end of
  the string and just before a newline that ends the string. \<^verbatim>\<open>re.match\<close> looks for a
  match that starts at the first character; a repetition may stop early when the rest
  of the pattern needs it to.
\<close>

datatype class_item = Range char char | Single char

fun in_item :: "class_item \<Rightarrow> char \<Rightarrow> bool" where
  "in_item (Range lo hi) c = (lo \<le> c \<and> c \<le> hi)"
| "in_item (Single x) c = (c = x)"

definition in_class :: "class_item list \<Rightarrow> char \<Rightarrow> bool" where
  "in_class items c = list_ex (\<lambda>i. in_item i c) items"

datatype atom = OneOrMore "class_item list" | Lit char | EndAnchor

fun re_match :: "atom list \<Rightarrow> string \<Rightarrow> bool" where
  "re_match [] s = True"
| "re_match (Lit c # as) s = (case s of [] \<Rightarrow> False | x # xs \<Rightarrow> x = c \<and> re_match as xs)"
| "re_match (EndAnchor # as) s = ((s = [] \<or> s = [CHR 0x0A]) \<and> re_match as s)"
| "re_match (OneOrMore items # as) s =
     list_ex (\<lambda>n. re_match as (drop n s)) [1..<Suc (length (takeWhile (in_class items) s))]"

text \<open>\<^verbatim>\<open>renderer_re = re.compile(r'[a-z0-9.-_]+$')\<close>: the bracket holds the ranges
  \<^verbatim>\<open>a-z\<close>, \<^verbatim>\<open>0-9\<close> and \<^verbatim>\<open>.-_\<close>.\<close>

definition renderer_class :: "class_item list" where
  "renderer_class =
     [Range CHR ''a'' CHR ''z'', Range CHR ''0'' CHR ''9'', Range CHR ''.'' CHR ''_'']"

definition renderer_re :: "atom list" where
  "renderer_re = [OneOrMore renderer_class, EndAnchor]"

definition renderer_re_pattern :: string where
  "renderer_re_pattern = ''[a-z0-9.-_]+$''"

text \<open>\<^verbatim>\<open>media_type_re = re.compile(r'[A-Za-z0-9.+*-]+/[A-Za-z0-9.+*-]+$')\<close>\<close>

definition media_type_class :: "class_item list" where
  "media_type_class =
     [Range CHR ''A'' CHR ''Z'', Range CHR ''a'' CHR ''z'', Range CHR ''0'' CHR ''9'',
      Single CHR ''.'', Single CHR ''+'', Single CHR ''*'', Single CHR ''-'']"

definition media_type_re :: "atom list" where
  "media_type_re =
     [OneOrMore media_type_class, Lit CHR ''/'', OneOrMore media_type_class, EndAnchor]"

definition media_type_re_pattern :: string where
  "media_type_re_pattern = ''[A-Za-z0-9.+*-]+/[A-Za-z0-9.+*-]+$''"

subsection \<open>Defaults, renderer factories and speclines\<close>

text \<open>
  A renderer factory is called with the path, the content of the page, the media type
  and the offset, and returns a renderer or raises. An entry of the dict
  \<^verbatim>\<open>renderer_factories\<close> is a factory or a stored ImportError. The dict is an
  association list (a dict has each key once), since its items are enumerated in sorted
  order; items with different keys are sorted by their keys, and strings are compared
  character by character.
\<close>

type_synonym renderer_factory = "string \<Rightarrow> string \<Rightarrow> string \<Rightarrow> nat \<Rightarrow> error + renderer"

datatype factory_entry = Factory renderer_factory | ImportErrorV string

fun isinstance_ImportError :: "factory_entry \<Rightarrow> bool" where
  "isinstance_ImportError (ImportErrorV msg) = True"
| "isinstance_ImportError (Factory f) = False"

record SimplateDefaults =
  renderers_by_media_type :: "string \<rightharpoonup> string"
  renderer_factories :: "(string \<times> factory_entry) list"
  initial_context :: env

fun join :: "string \<Rightarrow> string list \<Rightarrow> string" where
  "join sep [] = []"
| "join sep [x] = x"
| "join sep (x # y # ys) = x @ sep @ join sep (y # ys)"

text \<open>The loop over \<^verbatim>\<open>sorted(factories.items())\<close> that builds \<^verbatim>\<open>possible\<close> and
  \<^verbatim>\<open>legend\<close>.\<close>

fun possible_renderers ::
  "(string \<times> factory_entry) list \<Rightarrow> string list \<Rightarrow> string \<Rightarrow> string list \<times> string" where
  "possible_renderers [] possible legend = (possible, legend)"
| "possible_renderers ((k, v) # items) possible legend =
     (if isinstance_ImportError v
      then possible_renderers items (possible @ [CHR ''*'' # k])
             '' (starred are missing third-party libraries)''
      else possible_renderers items (possible @ [k]) legend)"

definition Simplate_get_renderer_factory ::
  "SimplateDefaults \<Rightarrow> string \<Rightarrow> string \<Rightarrow> error + renderer_factory" where
  "Simplate_get_renderer_factory defaults mtype renderer =
     (let factories = renderer_factories defaults
      in if \<not> re_match renderer_re renderer
         then Inl (SyntaxError (''Malformed renderer '' @ renderer @ ''. It must match ''
                     @ renderer_re_pattern
                     @ ''. Possible renderers (might need third-party libs): ''
                     @ join '', '' (sort (map fst factories)) @ ''.''))
         else (case map_of factories renderer of
                 Some (ImportErrorV msg) \<Rightarrow> Inl (ImportError msg)
               | None \<Rightarrow>
                   (case possible_renderers (sort_key fst factories) [] [] of
                      (possible, legend) \<Rightarrow>
                        Inl (ValueError (''Unknown renderer for '' @ mtype @ '': '' @ renderer
                               @ ''. Possible renderers'' @ legend @ '': ''
                               @ join '', '' possible @ ''.'')))
               | Some (Factory make_renderer) \<Rightarrow> Inr make_renderer))"

text \<open>
  \<^verbatim>\<open>_parse_specline\<close>: the function \<^verbatim>\<open>parse_specline\<close> (module \<^verbatim>\<open>pagination\<close>),
  which cuts the specline into the media type and the renderer name, is a parameter.
  A media type with no entry in \<^verbatim>\<open>renderers_by_media_type\<close> raises KeyError.
\<close>

definition Simplate_parse_specline ::
  "SimplateDefaults \<Rightarrow> string \<Rightarrow> (string \<Rightarrow> string \<times> string) \<Rightarrow> string
     \<Rightarrow> error + renderer_factory \<times> string" where
  "Simplate_parse_specline defaults default_mtype parse_specline specline =
     (case parse_specline specline of
        (mtype0, renderer0) \<Rightarrow>
          (let mtype = (if mtype0 = [] then default_mtype else mtype0)
           in case (if renderer0 = []
                    then (case renderers_by_media_type defaults mtype of
                            None \<Rightarrow> Inl (KeyError (StrV mtype))
                          | Some r \<Rightarrow> Inr r)
                    else Inr renderer0) of
                Inl e \<Rightarrow> Inl e
              | Inr renderer \<Rightarrow>
                  if \<not> re_match media_type_re mtype
                  then Inl (SyntaxError (''Malformed media type '' @ [CHR 0x27] @ mtype
                              @ [CHR 0x27] @ '' in specline '' @ [CHR 0x27] @ specline
                              @ [CHR 0x27] @ ''. It must match '' @ media_type_re_pattern
                              @ ''.''))
                  else (case Simplate_get_renderer_factory defaults mtype renderer of
                          Inl e \<Rightarrow> Inl e
                        | Inr make_renderer \<Rightarrow> Inr (make_renderer, mtype))))"

subsection \<open>Construction of a simplate\<close>

text \<open>\<^verbatim>\<open>page_one\<close> is the dict the first page leaves, \<^verbatim>\<open>page_two\<close> the compiled
  second page.\<close>

record simplate =
  fspath :: string
  default_media_type :: string
  renderers :: "string \<rightharpoonup> renderer"
  available_types :: "string list"
  page_one :: addr
  page_two :: code

text \<open>
  What \<^verbatim>\<open>__init__\<close> and \<^verbatim>\<open>compile_pages\<close> take from outside this module: the
  request processor's \<^verbatim>\<open>guess_media_type\<close>, the text read from the checked resource
  path (\<^verbatim>\<open>check_resource_path\<close>, \<^verbatim>\<open>tokenize.open\<close>, \<^verbatim>\<open>read\<close>), the two
  functions of the module \<^verbatim>\<open>pagination\<close>, and Python's \<^verbatim>\<open>compile\<close>, called with a
  source text and a file name.
\<close>

record collaborators =
  guess_media_type :: "string \<Rightarrow> string"
  read_resource :: "string \<Rightarrow> error + string"
  split_and_escape :: "string \<Rightarrow> page list"
  parse_specline :: "string \<Rightarrow> string \<times> string"
  compile :: "string \<Rightarrow> string \<Rightarrow> error + code"

definition compile_page ::
  "SimplateDefaults \<Rightarrow> collaborators \<Rightarrow> string \<Rightarrow> string \<Rightarrow> page
     \<Rightarrow> error + renderer \<times> string" where
  "compile_page defaults ext path default_mtype p =
     (case Simplate_parse_specline defaults default_mtype (parse_specline ext) (header p) of
        Inl e \<Rightarrow> Inl e
      | Inr (make_renderer, mtype) \<Rightarrow>
          (case make_renderer path (content p) mtype (offset p) of
             Inl e \<Rightarrow> Inl e
           | Inr renderer \<Rightarrow> Inr (renderer, mtype)))"

text \<open>The list comprehension over \<^verbatim>\<open>pages[2:]\<close>: the pages are compiled in order and
  the first exception ends it.\<close>

fun compile_templates ::
  "SimplateDefaults \<Rightarrow> collaborators \<Rightarrow> string \<Rightarrow> string \<Rightarrow> page list
     \<Rightarrow> error + (renderer \<times> string) list" where
  "compile_templates defaults ext path default_mtype [] = Inr []"
| "compile_templates defaults ext path default_mtype (p # ps) =
     (case compile_page defaults ext path default_mtype p of
        Inl e \<Rightarrow> Inl e
      | Inr t \<Rightarrow>
          (case compile_templates defaults ext path default_mtype ps of
             Inl e \<Rightarrow> Inl e
           | Inr ts \<Rightarrow> Inr (t # ts)))"

text \<open>
  \<^verbatim>\<open>compile_pages\<close> replaces the pages in place; here it returns what the list holds
  afterwards: the new dict \<^verbatim>\<open>context\<close> in which the first page was executed, the code
  of the second page and the pairs of the template pages.
  \<^verbatim>\<open>one, two = pages[:2]\<close> raises ValueError when there are fewer than two pages.
\<close>

definition compile_pages ::
  "SimplateDefaults \<Rightarrow> collaborators \<Rightarrow> string \<Rightarrow> string \<Rightarrow> page list \<Rightarrow> heap
     \<Rightarrow> (error + addr \<times> code \<times> (renderer \<times> string) list) \<times> heap" where
  "compile_pages defaults ext path default_mtype pages h =
     (case pages of
        one # two # templates \<Rightarrow>
          (let context = next_dict h;
               h1 = h\<lparr>dicts := (dicts h)(context := [''__file__'' \<mapsto> StrV path]
                                                       ++ initial_context defaults),
                      next_dict := Suc context\<rparr>
           in case compile ext (padded_content one) path of
                Inl e \<Rightarrow> (Inl e, h1)
              | Inr one_code \<Rightarrow>
                  (case one_code context h1 of
                     (Inl e, h2) \<Rightarrow> (Inl e, h2)
                   | (Inr u, h2) \<Rightarrow>
                       (case compile ext (padded_content two) path of
                          Inl e \<Rightarrow> (Inl e, h2)
                        | Inr two_code \<Rightarrow>
                            (case compile_templates defaults ext path default_mtype templates of
                               Inl e \<Rightarrow> (Inl e, h2)
                             | Inr ts \<Rightarrow> (Inr (context, two_code, ts), h2)))))
      | _ \<Rightarrow> (Inl (ValueError ''not enough values to unpack''), h))"

text \<open>The loop of \<^verbatim>\<open>__init__\<close> over the compiled template pages, on
  \<^verbatim>\<open>self.renderers\<close> and \<^verbatim>\<open>self.available_types\<close>.\<close>

fun add_renderers ::
  "(renderer \<times> string) list \<Rightarrow> (string \<rightharpoonup> renderer) \<Rightarrow> string list
     \<Rightarrow> error + (string \<rightharpoonup> renderer) \<times> string list" where
  "add_renderers [] rs ats = Inr (rs, ats)"
| "add_renderers ((renderer, mtype) # ts) rs ats =
     (if mtype \<in> dom rs
      then Inl (SyntaxError (''Two content pages defined for '' @ mtype @ ''.''))
      else add_renderers ts (rs(mtype \<mapsto> renderer)) (ats @ [mtype]))"

text \<open>\<^verbatim>\<open>fspath.rsplit('.', 1)[0]\<close>: the path up to its last dot, or all of it.\<close>

definition rsplit_dot_first :: "string \<Rightarrow> string" where
  "rsplit_dot_first s =
     (if CHR ''.'' \<in> set s then rev (tl (dropWhile (\<lambda>c. c \<noteq> CHR ''.'') (rev s))) else s)"

definition Simplate_init ::
  "SimplateDefaults \<Rightarrow> collaborators \<Rightarrow> string \<Rightarrow> heap \<Rightarrow> (error + simplate) \<times> heap" where
  "Simplate_init defaults ext path h =
     (let default_mtype = guess_media_type ext (rsplit_dot_first path)
      in case read_resource ext path of
           Inl e \<Rightarrow> (Inl e, h)
         | Inr decoded \<Rightarrow>
             (case parse_into_pages (split_and_escape ext) decoded of
                Inl e \<Rightarrow> (Inl e, h)
              | Inr pages \<Rightarrow>
                  (case compile_pages defaults ext path default_mtype pages h of
                     (Inl e, h') \<Rightarrow> (Inl e, h')
                   | (Inr (one, two, templates), h') \<Rightarrow>
                       (case add_renderers templates Map.empty [] of
                          Inl e \<Rightarrow> (Inl e, h')
                        | Inr (rs, ats) \<Rightarrow>
                            (Inr \<lparr>fspath = path, default_media_type = default_mtype,
                                  renderers = rs, available_types = ats,
                                  page_one = one, page_two = two\<rparr>, h')))))"

subsection \<open>Rendering\<close>

definition deref :: "obj list \<Rightarrow> addr \<Rightarrow> obj option" where
  "deref os a = (if a < length os then Some (os ! a) else None)"

text \<open>\<^verbatim>\<open>output.body\<close>, read from the object the local variable \<^verbatim>\<open>output\<close> refers
  to; AttributeError where the store holds no Output there.\<close>

definition output_at :: "obj list \<Rightarrow> addr \<Rightarrow> error + output_obj" where
  "output_at os a = (case deref os a of Some (OutputO out) \<Rightarrow> Inr out | _ \<Rightarrow> Inl AttributeError)"

text \<open>
  \<^verbatim>\<open>dict((k, context[k]) for k in context['__all__'])\<close>. Iterating a string gives its
  characters, iterating a list its elements; nothing else here can be iterated. A key
  that is not a name of the context raises KeyError, a list as a key TypeError.
\<close>

definition iterate :: "obj list \<Rightarrow> val \<Rightarrow> error + val list" where
  "iterate os v =
     (case v of
        StrV s \<Rightarrow> Inr (map (\<lambda>c. StrV [c]) s)
      | Ref a \<Rightarrow> (case deref os a of
                    Some (ListO vs) \<Rightarrow> Inr vs
                  | _ \<Rightarrow> Inl (TypeError ''object is not iterable''))
      | _ \<Rightarrow> Inl (TypeError ''object is not iterable''))"

definition getitem :: "env \<Rightarrow> obj list \<Rightarrow> val \<Rightarrow> error + string \<times> val" where
  "getitem context os k =
     (case k of
        StrV n \<Rightarrow> (case context n of None \<Rightarrow> Inl (KeyError k) | Some v \<Rightarrow> Inr (n, v))
      | Ref a \<Rightarrow> (case deref os a of
                    Some (ListO vs) \<Rightarrow> Inl (TypeError ''unhashable type'')
                  | _ \<Rightarrow> Inl (KeyError k))
      | _ \<Rightarrow> Inl (KeyError k))"

fun getitems :: "env \<Rightarrow> obj list \<Rightarrow> val list \<Rightarrow> error + (string \<times> val) list" where
  "getitems context os [] = Inr []"
| "getitems context os (k # ks) =
     (case getitem context os k of
        Inl e \<Rightarrow> Inl e
      | Inr kv \<Rightarrow> (case getitems context os ks of Inl e \<Rightarrow> Inl e | Inr kvs \<Rightarrow> Inr (kv # kvs)))"

definition dict_of :: "(string \<times> val) list \<Rightarrow> env" where
  "dict_of kvs = fold (\<lambda>(k, v) m. m(k \<mapsto> v)) kvs Map.empty"

text \<open>The names a template sees: those of the context, or with \<^verbatim>\<open>__all__\<close> in the
  context a new dict of the names listed there.\<close>

definition template_context :: "env \<Rightarrow> obj list \<Rightarrow> error + env" where
  "template_context context os =
     (case context ''__all__'' of
        None \<Rightarrow> Inr context
      | Some names \<Rightarrow>
          (case iterate os names of
             Inl e \<Rightarrow> Inl e
           | Inr ks \<Rightarrow> (case getitems context os ks of
                          Inl e \<Rightarrow> Inl e
                        | Inr kvs \<Rightarrow> Inr (dict_of kvs))))"

text \<open>
  The first three statements of \<^verbatim>\<open>render_for_type\<close>: the new Output gets the first
  free address, \<^verbatim>\<open>context['output']\<close> is set to it, and the context is updated with
  the dict of the first page, all in place in the caller's dict \<^verbatim>\<open>context\<close>. The
  result is the address of the Output with the store in which the second page is then
  executed.
\<close>

definition render_context :: "simplate \<Rightarrow> string \<Rightarrow> addr \<Rightarrow> heap \<Rightarrow> addr \<times> heap" where
  "render_context self mtype context h =
     (let output = length (objs h);
          h1 = h\<lparr>objs := objs h @ [OutputO (Output mtype)]\<rparr>;
          h2 = h1\<lparr>dicts := (dicts h1)(context := (dicts h1 context)(''output'' \<mapsto> Ref output))\<rparr>;
          h3 = h2\<lparr>dicts := (dicts h2)(context := dicts h2 context ++ dicts h2 (page_one self))\<rparr>
      in (output, h3))"

text \<open>
  \<^verbatim>\<open>render_for_type\<close>, with the caller's dict given by its address. It returns the
  Output (its address) or raises, and in both cases the store as the call leaves it.
\<close>

definition render_for_type ::
  "simplate \<Rightarrow> string \<Rightarrow> addr \<Rightarrow> heap \<Rightarrow> (error + addr) \<times> heap" where
  "render_for_type self mtype context h =
     (case render_context self mtype context h of
        (output, h3) \<Rightarrow>
          (case page_two self context h3 of
             (Inl e, h4) \<Rightarrow> (Inl e, h4)
           | (Inr u, h4) \<Rightarrow>
               (case output_at (objs h4) output of
                  Inl e \<Rightarrow> (Inl e, h4)
                | Inr out \<Rightarrow>
                    if body out \<noteq> NoneV then (Inr output, h4)
                    else (case template_context (dicts h4 context) (objs h4) of
                            Inl e \<Rightarrow> (Inl e, h4)
                          | Inr context' \<Rightarrow>
                              (case renderers self mtype of
                                 None \<Rightarrow> (Inl (KeyError (StrV mtype)), h4)
                               | Some render \<Rightarrow>
                                   (case render context' (objs h4) of
                                      Inl e \<Rightarrow> (Inl e, h4)
                                    | Inr b \<Rightarrow>
                                        (Inr output,
                                         h4\<lparr>objs := (objs h4)[output :=
                                                        OutputO (out\<lparr>body := b\<rparr>)]\<rparr>)))))))"

subsection \<open>Example inputs\<close>

text \<open>A renderer factory whose renderers return the content of their page, and
  defaults with two usable renderers and one whose library is missing.\<close>

definition static_renderer :: "string \<Rightarrow> renderer" where
  "static_renderer text context os = Inr (StrV text)"

definition static_factory :: renderer_factory where
  "static_factory path text mtype off = Inr (static_renderer text)"

definition example_defaults :: SimplateDefaults where
  "example_defaults =
     \<lparr>renderers_by_media_type = [''text/plain'' \<mapsto> ''static'', ''text/html'' \<mapsto> ''static''],
      renderer_factories =
        [(''static'', Factory static_factory),
         (''my-renderer'', Factory static_factory),
         (''jinja2'', ImportErrorV ''No module named jinja2'')],
      initial_context = Map.empty\<rparr>"

text \<open>
  Sources, as \<^verbatim>\<open>split_and_escape\<close> cuts them, and the code units of their logic
  pages: an empty page, \<^verbatim>\<open>x = []\<close>, \<^verbatim>\<open>x.append(1); output.body = len(x)\<close>,
  \<^verbatim>\<open>output.body = __file__\<close>, \<^verbatim>\<open>__all__ = [str(0)]\<close> and \<^verbatim>\<open>output.body = str()\<close>.
\<close>

definition newline :: string where
  "newline = [CHR 0x0A]"

definition greet_source :: string where
  "greet_source = ''[---]'' @ newline @ ''[---]'' @ newline @ ''Greetings, program!''"

definition custom_source :: string where
  "custom_source = ''[---]'' @ newline @ ''output.body = __file__'' @ newline
     @ ''[---]'' @ newline @ ''unused''"

definition leak_source :: string where
  "leak_source = ''x = []'' @ newline @ ''[---]'' @ newline
     @ ''x.append(1); output.body = len(x)'' @ newline @ ''[---]'' @ newline @ ''unused''"

definition twice_source :: string where
  "twice_source = ''[---]'' @ newline @ ''[---] text/html'' @ newline @ ''a'' @ newline
     @ ''[---] text/html'' @ newline @ ''b''"

definition both_source :: string where
  "both_source = ''[---]'' @ newline @ ''[---] text/html'' @ newline @ ''a'' @ newline
     @ ''[---] text/plain'' @ newline @ ''b''"

definition narrow_source :: string where
  "narrow_source = ''[---]'' @ newline @ ''__all__ = [str(0)]'' @ newline
     @ ''[---]'' @ newline @ ''unused''"

definition blank_source :: string where
  "blank_source = ''[---]'' @ newline @ ''output.body = str()'' @ newline
     @ ''[---]'' @ newline @ ''unused''"

definition example_read :: "string \<Rightarrow> error + string" where
  "example_read path =
     (if path = ''greet.txt.spt'' then Inr greet_source
      else if path = ''custom.txt.spt'' then Inr custom_source
      else if path = ''leak.txt.spt'' then Inr leak_source
      else if path = ''twice.txt.spt'' then Inr twice_source
      else if path = ''both.txt.spt'' then Inr both_source
      else if path = ''narrow.txt.spt'' then Inr narrow_source
      else if path = ''blank.txt.spt'' then Inr blank_source
      else Inl (Raised ''NotFound''))"

definition logic_pages :: "string \<Rightarrow> page list" where
  "logic_pages text =
     [\<lparr>header = [], content = [], offset = 0\<rparr>,
      \<lparr>header = [], content = text @ newline, offset = 1\<rparr>,
      \<lparr>header = [], content = ''unused'', offset = 3\<rparr>]"

definition example_split :: "string \<Rightarrow> page list" where
  "example_split decoded =
     (if decoded = greet_source
      then [\<lparr>header = [], content = [], offset = 0\<rparr>,
            \<lparr>header = [], content = [], offset = 1\<rparr>,
            \<lparr>header = [], content = ''Greetings, program!'', offset = 2\<rparr>]
      else if decoded = custom_source then logic_pages ''output.body = __file__''
      else if decoded = narrow_source then logic_pages ''__all__ = [str(0)]''
      else if decoded = blank_source then logic_pages ''output.body = str()''
      else if decoded = leak_source
      then [\<lparr>header = [], content = ''x = []'' @ newline, offset = 0\<rparr>,
            \<lparr>header = [], content = ''x.append(1); output.body = len(x)'' @ newline,
              offset = 2\<rparr>,
            \<lparr>header = [], content = ''unused'', offset = 4\<rparr>]
      else if decoded = twice_source
      then [\<lparr>header = [], content = [], offset = 0\<rparr>,
            \<lparr>header = [], content = [], offset = 1\<rparr>,
            \<lparr>header = ''text/html'', content = ''a'' @ newline, offset = 2\<rparr>,
            \<lparr>header = ''text/html'', content = ''b'', offset = 4\<rparr>]
      else if decoded = both_source
      then [\<lparr>header = [], content = [], offset = 0\<rparr>,
            \<lparr>header = [], content = [], offset = 1\<rparr>,
            \<lparr>header = ''text/html'', content = ''a'' @ newline, offset = 2\<rparr>,
            \<lparr>header = ''text/plain'', content = ''b'', offset = 4\<rparr>]
      else [\<lparr>header = [], content = decoded, offset = 0\<rparr>])"

definition example_parse_specline :: "string \<Rightarrow> string \<times> string" where
  "example_parse_specline specline =
     (if specline = ''text/html via my-renderer'' then (''text/html'', ''my-renderer'')
      else (specline, []))"

definition code_pass :: code where
  "code_pass g h = (Inr (), h)"

definition code_new_list :: code where
  "code_new_list g h =
     (Inr (), h\<lparr>objs := objs h @ [ListO []],
                dicts := (dicts h)(g := (dicts h g)(''x'' \<mapsto> Ref (length (objs h))))\<rparr>)"

definition code_append :: code where
  "code_append g h =
     (case (dicts h g ''x'', dicts h g ''output'') of
        (Some (Ref a), Some (Ref b)) \<Rightarrow>
          (case (deref (objs h) a, deref (objs h) b) of
             (Some (ListO xs), Some (OutputO out)) \<Rightarrow>
               (Inr (), h\<lparr>objs := (objs h)[a := ListO (xs @ [IntV 1]),
                      b := OutputO (out\<lparr>body := IntV (int (length xs) + 1)\<rparr>)]\<rparr>)
           | _ \<Rightarrow> (Inl AttributeError, h))
      | _ \<Rightarrow> (Inl (Raised ''NameError''), h))"

definition set_body :: "val \<Rightarrow> code" where
  "set_body v g h =
     (case dicts h g ''output'' of
        Some (Ref b) \<Rightarrow>
          (case deref (objs h) b of
             Some (OutputO out) \<Rightarrow> (Inr (), h\<lparr>objs := (objs h)[b := OutputO (out\<lparr>body := v\<rparr>)]\<rparr>)
           | _ \<Rightarrow> (Inl AttributeError, h))
      | _ \<Rightarrow> (Inl (Raised ''NameError''), h))"

definition code_set_body :: code where
  "code_set_body g h =
     (case dicts h g ''__file__'' of
        Some v \<Rightarrow> set_body v g h
      | None \<Rightarrow> (Inl (Raised ''NameError''), h))"

definition code_blank_body :: code where
  "code_blank_body = set_body (StrV [])"

definition code_all :: code where
  "code_all g h =
     (Inr (), h\<lparr>objs := objs h @ [ListO [StrV ''0'']],
                dicts := (dicts h)(g := (dicts h g)(''__all__'' \<mapsto> Ref (length (objs h))))\<rparr>)"

definition example_compile :: "string \<Rightarrow> string \<Rightarrow> error + code" where
  "example_compile source filename =
     (let text = filter (\<lambda>c. c \<noteq> CHR 0x0A) source
      in if text = [] then Inr code_pass
         else if text = ''x = []'' then Inr code_new_list
         else if text = ''x.append(1); output.body = len(x)'' then Inr code_append
         else if text = ''output.body = __file__'' then Inr code_set_body
         else if text = ''output.body = str()'' then Inr code_blank_body
         else if text = ''__all__ = [str(0)]'' then Inr code_all
         else Inl (SyntaxError ''invalid syntax''))"

definition example_ext :: collaborators where
  "example_ext =
     \<lparr>guess_media_type = (\<lambda>name. ''text/plain''),
      read_resource = example_read,
      split_and_escape = example_split,
      parse_specline = example_parse_specline,
      compile = example_compile\<rparr>"

text \<open>The store before anything is constructed, and the simplates that construction
  in it returns: the dict of the first page is the dict 0.\<close>

definition heap0 :: heap where
  "heap0 = \<lparr>objs = [], dicts = (\<lambda>a. Map.empty), next_dict = 0\<rparr>"

definition logic_simplate :: "string \<Rightarrow> code \<Rightarrow> simplate" where
  "logic_simplate path two =
     \<lparr>fspath = path, default_media_type = ''text/plain'',
      renderers = [''text/plain'' \<mapsto> static_renderer ''unused''],
      available_types = [''text/plain''],
      page_one = 0, page_two = two\<rparr>"

definition custom_simplate :: simplate where
  "custom_simplate = logic_simplate ''custom.txt.spt'' code_set_body"

definition leak_simplate :: simplate where
  "leak_simplate = logic_simplate ''leak.txt.spt'' code_append"

definition narrow_simplate :: simplate where
  "narrow_simplate = logic_simplate ''narrow.txt.spt'' code_all"

definition blank_simplate :: simplate where
  "blank_simplate = logic_simplate ''blank.txt.spt'' code_blank_body"

definition greet_simplate :: simplate where
  "greet_simplate =
     \<lparr>fspath = ''greet.txt.spt'', default_media_type = ''text/plain'',
      renderers = [''text/plain'' \<mapsto> static_renderer ''Greetings, program!''],
      available_types = [''text/plain''],
      page_one = 0, page_two = code_pass\<rparr>"

text \<open>The store after construction at a path with an empty first page, and the store
  after a caller has made a new dict with given contents.\<close>

definition constructed :: "string \<Rightarrow> heap" where
  "constructed path =
     \<lparr>objs = [], dicts = (\<lambda>a. Map.empty)(0 := [''__file__'' \<mapsto> StrV path]), next_dict = 1\<rparr>"

definition leak_heap :: heap where
  "leak_heap =
     \<lparr>objs = [ListO []],
      dicts = (\<lambda>a. Map.empty)(0 := [''__file__'' \<mapsto> StrV ''leak.txt.spt'', ''x'' \<mapsto> Ref 0]),
      next_dict = 1\<rparr>"

definition new_dict :: "env \<Rightarrow> heap \<Rightarrow> heap" where
  "new_dict d h = h\<lparr>dicts := (dicts h)(next_dict h := d), next_dict := Suc (next_dict h)\<rparr>"

text \<open>The store after construction of the simplate with the list, when two callers have
  made their dicts, the dicts 1 and 2.\<close>

definition two_callers :: heap where
  "two_callers =
     new_dict [''user'' \<mapsto> StrV ''bob''] (new_dict [''user'' \<mapsto> StrV ''alice''] leak_heap)"

section \<open>Properties\<close>

subsection \<open>Normalisation of the split pages\<close>

lemma parse_into_pages_no_page:
  "splitter decoded = [] \<Longrightarrow> parse_into_pages splitter decoded = Inl IndexError"
  by (simp add: parse_into_pages_def)

text \<open>
  C1. For every non-empty list of split pages, \<^verbatim>\<open>parse_into_pages\<close> returns the pages
  by the page-count and header table: one page gives two empty pages and the page; two
  pages give one empty page and the two pages; three or more pages with a header on the
  second page give one empty page and the pages; three or more pages with no header on
  the second page are returned as they are. In every case at least three pages come
  back: two logic pages and then the template pages.
\<close>

theorem parse_into_pages_table:
  assumes "splitter decoded = pages" and "pages \<noteq> []"
  shows "\<exists>result. parse_into_pages splitter decoded = Inr result
           \<and> 3 \<le> length result
           \<and> (length pages = 1 \<longrightarrow> result = [Page [], Page [], pages ! 0])
           \<and> (length pages = 2 \<longrightarrow> result = [Page [], pages ! 0, pages ! 1])
           \<and> (3 \<le> length pages \<and> header (pages ! 1) \<noteq> [] \<longrightarrow> result = Page [] # pages)
           \<and> (3 \<le> length pages \<and> header (pages ! 1) = [] \<longrightarrow> result = pages)"
proof -
  from assms(2) have "length pages \<noteq> 0"
    by simp
  then have "length pages = 1 \<or> length pages = 2 \<or> 3 \<le> length pages"
    by arith
  then show ?thesis
  proof (elim disjE)
    assume l: "length pages = 1"
    then obtain p where "pages = [p]"
      by (cases pages) auto
    with assms(1) show ?thesis
      by (simp add: parse_into_pages_def)
  next
    assume l: "length pages = 2"
    then obtain p q where "pages = [p, q]"
      by (cases pages; cases "tl pages") auto
    with assms(1) show ?thesis
      by (simp add: parse_into_pages_def)
  next
    assume l: "3 \<le> length pages"
    with assms(1) show ?thesis
      by (simp add: parse_into_pages_def Let_def)
  qed
qed

theorem parse_into_pages_table_witness:
  "\<exists>result. parse_into_pages (\<lambda>_. [\<lparr>header = [], content = ''a'', offset = 0\<rparr>,
                                     \<lparr>header = ''text/plain'', content = ''b'', offset = 1\<rparr>,
                                     \<lparr>header = ''text/html'', content = ''c'', offset = 2\<rparr>]) ''src''
              = Inr result
     \<and> result = [Page [], \<lparr>header = [], content = ''a'', offset = 0\<rparr>,
                  \<lparr>header = ''text/plain'', content = ''b'', offset = 1\<rparr>,
                  \<lparr>header = ''text/html'', content = ''c'', offset = 2\<rparr>]"
  using parse_into_pages_table
    [of "\<lambda>_. [\<lparr>header = [], content = ''a'', offset = 0\<rparr>,
              \<lparr>header = ''text/plain'', content = ''b'', offset = 1\<rparr>,
              \<lparr>header = ''text/html'', content = ''c'', offset = 2\<rparr>]" "''src''"
        "[\<lparr>header = [], content = ''a'', offset = 0\<rparr>,
          \<lparr>header = ''text/plain'', content = ''b'', offset = 1\<rparr>,
          \<lparr>header = ''text/html'', content = ''c'', offset = 2\<rparr>]"]
  by simp

subsection \<open>What the two patterns accept\<close>

lemma take_takeWhile_prefix:
  assumes "n \<le> length (takeWhile P s)"
  shows "take n s = take n (takeWhile P s)"
proof -
  have "take n (takeWhile P s @ dropWhile P s)
          = take n (takeWhile P s) @ take (n - length (takeWhile P s)) (dropWhile P s)"
    by (rule take_append)
  also have "\<dots> = take n (takeWhile P s)"
    using assms by simp
  finally show ?thesis
    by simp
qed

lemma one_or_more_end:
  assumes nl: "\<not> P (CHR 0x0A)"
  shows "list_ex (\<lambda>n. drop n s = [] \<or> drop n s = [CHR 0x0A]) [1..<Suc (length (takeWhile P s))]
     \<longleftrightarrow> (\<exists>w. w \<noteq> [] \<and> (\<forall>c\<in>set w. P c) \<and> (s = w \<or> s = w @ [CHR 0x0A]))"
  (is "?L \<longleftrightarrow> ?R")
proof
  assume ?L
  then obtain n where n: "1 \<le> n" "n \<le> length (takeWhile P s)"
    and d: "drop n s = [] \<or> drop n s = [CHR 0x0A]"
    by (auto simp: list_ex_iff)
  let ?w = "take n s"
  have len: "length (takeWhile P s) \<le> length s"
    by (rule length_takeWhile_le)
  have "?w = take n (takeWhile P s)"
    using n(2) by (rule take_takeWhile_prefix)
  then have "\<forall>c\<in>set ?w. P c"
    by (metis in_set_takeD set_takeWhileD)
  moreover have "?w \<noteq> []"
    using n len by auto
  moreover have "s = ?w \<or> s = ?w @ [CHR 0x0A]"
    using d by (metis append_take_drop_id append_Nil2)
  ultimately show ?R
    by blast
next
  assume ?R
  then obtain w where w: "w \<noteq> []" "\<forall>c\<in>set w. P c" "s = w \<or> s = w @ [CHR 0x0A]"
    by blast
  have tw: "takeWhile P s = w"
    using w nl by auto
  have "drop (length w) s = [] \<or> drop (length w) s = [CHR 0x0A]"
    using w(3) by auto
  moreover have "1 \<le> length w"
    using w(1) by (cases w) auto
  ultimately show ?L
    unfolding list_ex_iff tw by (intro bexI [of _ "length w"]) auto
qed

lemma in_renderer_class:
  "in_class renderer_class c \<longleftrightarrow>
     (CHR ''a'' \<le> c \<and> c \<le> CHR ''z'') \<or> (CHR ''0'' \<le> c \<and> c \<le> CHR ''9'')
     \<or> (CHR ''.'' \<le> c \<and> c \<le> CHR ''_'')"
  by (simp add: in_class_def renderer_class_def)

lemma newline_not_in_renderer_class: "\<not> in_class renderer_class (CHR 0x0A)"
  by (simp add: in_renderer_class)

lemma hyphen_not_in_renderer_class: "\<not> in_class renderer_class CHR ''-''"
  by (simp add: in_renderer_class)

lemma newline_not_in_media_type_class: "\<not> in_class media_type_class (CHR 0x0A)"
  by (simp add: in_class_def media_type_class_def)

lemma slash_not_in_media_type_class: "\<not> in_class media_type_class CHR ''/''"
  by (simp add: in_class_def media_type_class_def)

lemma renderer_re_accepts:
  "re_match renderer_re s \<longleftrightarrow>
     (\<exists>w. w \<noteq> [] \<and> (\<forall>c\<in>set w. in_class renderer_class c) \<and> (s = w \<or> s = w @ [CHR 0x0A]))"
  using one_or_more_end [where P = "in_class renderer_class" and s = s]
  by (simp add: renderer_re_def newline_not_in_renderer_class)

lemma media_type_re_accepts:
  "re_match media_type_re s \<longleftrightarrow>
     (\<exists>t u. t \<noteq> [] \<and> u \<noteq> [] \<and> (\<forall>c\<in>set t. in_class media_type_class c)
        \<and> (\<forall>c\<in>set u. in_class media_type_class c)
        \<and> (s = t @ CHR ''/'' # u \<or> s = t @ CHR ''/'' # u @ [CHR 0x0A]))"
  (is "?L \<longleftrightarrow> ?R")
proof
  let ?P = "in_class media_type_class"
  assume ?L
  then obtain n where n: "1 \<le> n" "n \<le> length (takeWhile ?P s)"
    and d: "re_match [Lit CHR ''/'', OneOrMore media_type_class, EndAnchor] (drop n s)"
    by (auto simp: media_type_re_def list_ex_iff)
  from d obtain r where r: "drop n s = CHR ''/'' # r"
    and e: "re_match [OneOrMore media_type_class, EndAnchor] r"
    by (cases "drop n s") auto
  from e have "list_ex (\<lambda>n. drop n r = [] \<or> drop n r = [CHR 0x0A])
                 [1..<Suc (length (takeWhile ?P r))]"
    by simp
  then obtain u where u: "u \<noteq> []" "\<forall>c\<in>set u. ?P c" "r = u \<or> r = u @ [CHR 0x0A]"
    using one_or_more_end [where P = "?P" and s = r] newline_not_in_media_type_class
    by blast
  let ?t = "take n s"
  have "?t = take n (takeWhile ?P s)"
    using n(2) by (rule take_takeWhile_prefix)
  then have "\<forall>c\<in>set ?t. ?P c"
    by (metis in_set_takeD set_takeWhileD)
  moreover have "?t \<noteq> []"
    using n r by (cases s) auto
  moreover have "s = ?t @ CHR ''/'' # r"
    using r by (metis append_take_drop_id)
  ultimately show ?R
    using u by blast
next
  let ?P = "in_class media_type_class"
  assume ?R
  then obtain t u where t: "t \<noteq> []" "\<forall>c\<in>set t. ?P c"
    and u: "u \<noteq> []" "\<forall>c\<in>set u. ?P c"
    and s: "s = t @ CHR ''/'' # u \<or> s = t @ CHR ''/'' # u @ [CHR 0x0A]"
    by blast
  define r where "r = drop (Suc (length t)) s"
  have r: "r = u \<or> r = u @ [CHR 0x0A]" and ds: "drop (length t) s = CHR ''/'' # r"
    using s by (auto simp: r_def)
  have tw: "takeWhile ?P s = t"
    using s t slash_not_in_media_type_class by (auto simp: takeWhile_tail)
  have "list_ex (\<lambda>n. drop n r = [] \<or> drop n r = [CHR 0x0A])
          [1..<Suc (length (takeWhile ?P r))]"
    using one_or_more_end [where P = "?P" and s = r] newline_not_in_media_type_class u r
    by blast
  then have "re_match [Lit CHR ''/'', OneOrMore media_type_class, EndAnchor]
               (drop (length t) s)"
    by (simp add: ds)
  moreover have "1 \<le> length t"
    using t(1) by (cases t) auto
  ultimately show ?L
    unfolding media_type_re_def re_match.simps(4) list_ex_iff tw
    by (intro bexI [of _ "length t"]) auto
qed

subsection \<open>Resolving a renderer name\<close>

lemma possible_renderers_eq:
  "possible_renderers items possible legend =
     (possible @ map (\<lambda>(k, v). if isinstance_ImportError v then CHR ''*'' # k else k) items,
      if list_ex (\<lambda>(k, v). isinstance_ImportError v) items
      then '' (starred are missing third-party libraries)'' else legend)"
  by (induction items possible legend rule: possible_renderers.induct) auto

lemma get_renderer_factory_unknown:
  assumes "re_match renderer_re renderer"
    and "map_of (renderer_factories defaults) renderer = None"
  shows "Simplate_get_renderer_factory defaults mtype renderer
           = Inl (ValueError (''Unknown renderer for '' @ mtype @ '': '' @ renderer
                    @ ''. Possible renderers''
                    @ (if list_ex (\<lambda>(k, v). isinstance_ImportError v)
                            (sort_key fst (renderer_factories defaults))
                       then '' (starred are missing third-party libraries)'' else [])
                    @ '': ''
                    @ join '', ''
                        (map (\<lambda>(k, v). if isinstance_ImportError v then CHR ''*'' # k else k)
                           (sort_key fst (renderer_factories defaults)))
                    @ ''.''))"
  using assms
  by (simp add: Simplate_get_renderer_factory_def possible_renderers_eq Let_def)

text \<open>
  C5 (as amended). Resolution first checks the renderer name against the name pattern,
  and a name that fails the check is refused with a SyntaxError, whatever is registered.
  For a name that passes the check there is exactly one of three outcomes, by the entry
  of \<^verbatim>\<open>renderer_factories\<close> under the name: a factory is returned; a stored
  ImportError is raised itself; with no entry a ValueError is raised whose message lists
  every registered name in sorted order, the names of stored ImportErrors with a star in
  front.
\<close>

theorem get_renderer_factory_outcomes:
  "(\<not> re_match renderer_re renderer \<longrightarrow>
      Simplate_get_renderer_factory defaults mtype renderer
        = Inl (SyntaxError (''Malformed renderer '' @ renderer @ ''. It must match ''
                 @ renderer_re_pattern
                 @ ''. Possible renderers (might need third-party libs): ''
                 @ join '', '' (sort (map fst (renderer_factories defaults))) @ ''.'')))
   \<and> (re_match renderer_re renderer \<longrightarrow>
       (case map_of (renderer_factories defaults) renderer of
          Some (Factory make_renderer) \<Rightarrow>
            Simplate_get_renderer_factory defaults mtype renderer = Inr make_renderer
        | Some (ImportErrorV msg) \<Rightarrow>
            Simplate_get_renderer_factory defaults mtype renderer = Inl (ImportError msg)
        | None \<Rightarrow>
            (\<exists>possible legend.
               Simplate_get_renderer_factory defaults mtype renderer
                 = Inl (ValueError (''Unknown renderer for '' @ mtype @ '': '' @ renderer
                          @ ''. Possible renderers'' @ legend @ '': ''
                          @ join '', '' possible @ ''.''))
               \<and> possible = map (\<lambda>(k, v). if isinstance_ImportError v then CHR ''*'' # k else k)
                                (sort_key fst (renderer_factories defaults))
               \<and> (\<forall>(k, v)\<in>set (renderer_factories defaults).
                     (if isinstance_ImportError v then CHR ''*'' # k else k) \<in> set possible))))"
proof (intro conjI impI)
  assume "\<not> re_match renderer_re renderer"
  then show "Simplate_get_renderer_factory defaults mtype renderer
        = Inl (SyntaxError (''Malformed renderer '' @ renderer @ ''. It must match ''
                 @ renderer_re_pattern
                 @ ''. Possible renderers (might need third-party libs): ''
                 @ join '', '' (sort (map fst (renderer_factories defaults))) @ ''.''))"
    by (simp add: Simplate_get_renderer_factory_def)
next
  assume m: "re_match renderer_re renderer"
  show "case map_of (renderer_factories defaults) renderer of
          Some (Factory make_renderer) \<Rightarrow>
            Simplate_get_renderer_factory defaults mtype renderer = Inr make_renderer
        | Some (ImportErrorV msg) \<Rightarrow>
            Simplate_get_renderer_factory defaults mtype renderer = Inl (ImportError msg)
        | None \<Rightarrow>
            (\<exists>possible legend.
               Simplate_get_renderer_factory defaults mtype renderer
                 = Inl (ValueError (''Unknown renderer for '' @ mtype @ '': '' @ renderer
                          @ ''. Possible renderers'' @ legend @ '': ''
                          @ join '', '' possible @ ''.''))
               \<and> possible = map (\<lambda>(k, v). if isinstance_ImportError v then CHR ''*'' # k else k)
                                (sort_key fst (renderer_factories defaults))
               \<and> (\<forall>(k, v)\<in>set (renderer_factories defaults).
                     (if isinstance_ImportError v then CHR ''*'' # k else k) \<in> set possible))"
  proof (cases "map_of (renderer_factories defaults) renderer")
    case None
    let ?star = "\<lambda>(k, v). if isinstance_ImportError v then CHR ''*'' # k else k"
    let ?possible = "map ?star (sort_key fst (renderer_factories defaults))"
    have "\<forall>kv\<in>set (renderer_factories defaults). ?star kv \<in> set ?possible"
      by simp
    then have all: "\<forall>(k, v)\<in>set (renderer_factories defaults).
                 (if isinstance_ImportError v then CHR ''*'' # k else k) \<in> set ?possible"
      by (simp add: case_prod_beta)
    have "\<exists>possible legend.
            Simplate_get_renderer_factory defaults mtype renderer
              = Inl (ValueError (''Unknown renderer for '' @ mtype @ '': '' @ renderer
                       @ ''. Possible renderers'' @ legend @ '': ''
                       @ join '', '' possible @ ''.''))
            \<and> possible = ?possible
            \<and> (\<forall>(k, v)\<in>set (renderer_factories defaults).
                  (if isinstance_ImportError v then CHR ''*'' # k else k) \<in> set possible)"
      using get_renderer_factory_unknown [OF m None, of mtype] all
      by blast
    with None show ?thesis
      by (simp only: option.case)
  next
    case (Some entry)
    with m show ?thesis
      by (cases entry) (simp_all add: Simplate_get_renderer_factory_def)
  qed
qed

text \<open>A name with an exclamation mark that is not registered, and three names that
  pass the check: one not registered, one registered with a factory, one with a stored
  ImportError.\<close>

theorem get_renderer_factory_outcomes_witness:
  "\<not> re_match renderer_re ''mako!''
   \<and> Simplate_get_renderer_factory example_defaults ''text/html'' ''mako!''
       = Inl (SyntaxError (''Malformed renderer mako!. It must match [a-z0-9.-_]+$. ''
                @ ''Possible renderers (might need third-party libs): jinja2, my-renderer, static.''))
   \<and> re_match renderer_re ''mako''
   \<and> Simplate_get_renderer_factory example_defaults ''text/html'' ''mako''
       = Inl (ValueError (''Unknown renderer for text/html: mako. Possible renderers''
                @ '' (starred are missing third-party libraries): *jinja2, my-renderer, static.''))
   \<and> Simplate_get_renderer_factory example_defaults ''text/html'' ''static''
       = Inr static_factory
   \<and> Simplate_get_renderer_factory example_defaults ''text/html'' ''jinja2''
       = Inl (ImportError ''No module named jinja2'')"
proof -
  have m: "re_match renderer_re ''mako''" "re_match renderer_re ''static''"
    "re_match renderer_re ''jinja2''" "\<not> re_match renderer_re ''mako!''"
    by (simp_all add: renderer_re_def in_renderer_class)
  show ?thesis
    using m get_renderer_factory_outcomes [of "''mako''" example_defaults "''text/html''"]
      get_renderer_factory_outcomes [of "''static''" example_defaults "''text/html''"]
      get_renderer_factory_outcomes [of "''jinja2''" example_defaults "''text/html''"]
      get_renderer_factory_outcomes [of "''mako!''" example_defaults "''text/html''"]
    by (simp add: example_defaults_def Simplate_get_renderer_factory_def
        renderer_re_pattern_def)
qed

text \<open>The name \<^verbatim>\<open>mako!\<close> is not registered, and resolution raises the SyntaxError
  of the name check, not the ValueError for an unknown renderer.\<close>

theorem get_renderer_factory_malformed_counterexample:
  "map_of (renderer_factories example_defaults) ''mako!'' = None
   \<and> Simplate_get_renderer_factory example_defaults ''text/html'' ''mako!''
       = Inl (SyntaxError (''Malformed renderer mako!. It must match [a-z0-9.-_]+$. ''
                @ ''Possible renderers (might need third-party libs): jinja2, my-renderer, static.''))"
proof -
  have "\<not> re_match renderer_re ''mako!''"
    by (simp add: renderer_re_def in_renderer_class)
  then show ?thesis
    by (simp add: example_defaults_def Simplate_get_renderer_factory_def
        renderer_re_pattern_def)
qed

text \<open>
  C6. The bracket of \<^verbatim>\<open>renderer_re\<close> holds the range from \<^verbatim>\<open>.\<close> to \<^verbatim>\<open>_\<close> where
  the three characters \<^verbatim>\<open>.\<close>, \<^verbatim>\<open>-\<close> and \<^verbatim>\<open>_\<close> were meant: a registered renderer
  name with a hyphen is rejected with the SyntaxError for a malformed renderer, and a
  name of capital letters, a slash and a colon is accepted. A media type with a hyphen
  is accepted by \<^verbatim>\<open>media_type_re\<close>, where the hyphen comes last in the bracket.
\<close>

theorem renderer_re_range_slip:
  "\<not> re_match renderer_re ''my-renderer''
   \<and> map_of (renderer_factories example_defaults) ''my-renderer'' = Some (Factory static_factory)
   \<and> Simplate_get_renderer_factory example_defaults ''text/html'' ''my-renderer''
       = Inl (SyntaxError (''Malformed renderer my-renderer. It must match [a-z0-9.-_]+$. ''
                @ ''Possible renderers (might need third-party libs): jinja2, my-renderer, static.''))
   \<and> Simplate_parse_specline example_defaults ''text/plain'' example_parse_specline
         ''text/html via my-renderer''
       = Inl (SyntaxError (''Malformed renderer my-renderer. It must match [a-z0-9.-_]+$. ''
                @ ''Possible renderers (might need third-party libs): jinja2, my-renderer, static.''))
   \<and> re_match renderer_re ''JSON/2:X''
   \<and> re_match media_type_re ''text/x-yaml''"
proof -
  have a: "\<not> re_match renderer_re ''my-renderer''"
    by (simp add: renderer_re_def in_renderer_class)
  have b: "re_match renderer_re ''JSON/2:X''"
    by (simp add: renderer_re_def in_renderer_class)
  have c: "re_match media_type_re ''text/x-yaml''"
    by (simp add: media_type_re_def in_class_def media_type_class_def)
  have d: "map_of (renderer_factories example_defaults) ''my-renderer''
             = Some (Factory static_factory)"
    by (simp add: example_defaults_def)
  have e: "Simplate_get_renderer_factory example_defaults ''text/html'' ''my-renderer''
       = Inl (SyntaxError (''Malformed renderer my-renderer. It must match [a-z0-9.-_]+$. ''
                @ ''Possible renderers (might need third-party libs): jinja2, my-renderer, static.''))"
    using a by (simp add: Simplate_get_renderer_factory_def example_defaults_def
        renderer_re_pattern_def)
  have m: "re_match media_type_re ''text/html''"
    by (simp add: media_type_re_def in_class_def media_type_class_def)
  have f: "Simplate_parse_specline example_defaults ''text/plain'' example_parse_specline
         ''text/html via my-renderer''
       = Inl (SyntaxError (''Malformed renderer my-renderer. It must match [a-z0-9.-_]+$. ''
                @ ''Possible renderers (might need third-party libs): jinja2, my-renderer, static.''))"
    using e m by (simp add: Simplate_parse_specline_def example_parse_specline_def)
  from a b c d e f show ?thesis
    by blast
qed

subsection \<open>Media types of the template pages\<close>

lemma add_renderers_Inr:
  "add_renderers ts rs ats = Inr (rs', ats') \<Longrightarrow>
     ats' = ats @ map snd ts \<and> dom rs' = dom rs \<union> set (map snd ts)"
proof (induction ts arbitrary: rs ats)
  case Nil
  then show ?case by simp
next
  case (Cons t ts)
  obtain renderer mtype where t: "t = (renderer, mtype)"
    by (cases t)
  from Cons.prems t have m: "mtype \<notin> dom rs"
    and r: "add_renderers ts (rs(mtype \<mapsto> renderer)) (ats @ [mtype]) = Inr (rs', ats')"
    by (auto split: if_splits)
  from Cons.IH [OF r] t show ?case
    by auto
qed



lemma Simplate_init_available_types:
  assumes "Simplate_init defaults ext path h = (Inr self, h')"
  shows "dom (renderers self) = set (available_types self)"
proof -
  from assms obtain ts rs ats where a: "add_renderers ts Map.empty [] = Inr (rs, ats)"
    and r: "renderers self = rs" and t: "available_types self = ats"
    by (auto simp: Simplate_init_def Let_def split: sum.splits prod.splits)
  from add_renderers_Inr [OF a] r t show ?thesis
    by simp
qed




subsection \<open>The example simplates are compiled resources\<close>

lemma media_type_re_examples:
  "re_match media_type_re ''text/plain''" "re_match media_type_re ''text/html''"
  by (simp_all add: media_type_re_def in_class_def media_type_class_def)

lemma renderer_re_static: "re_match renderer_re ''static''"
  by (simp add: renderer_re_def in_renderer_class)

lemma parse_specline_examples:
  "Simplate_parse_specline example_defaults ''text/plain'' example_parse_specline []
     = Inr (static_factory, ''text/plain'')"
  "Simplate_parse_specline example_defaults ''text/plain'' example_parse_specline ''text/html''
     = Inr (static_factory, ''text/html'')"
  "Simplate_parse_specline example_defaults ''text/plain'' example_parse_specline ''text/plain''
     = Inr (static_factory, ''text/plain'')"
  by (simp_all add: Simplate_parse_specline_def example_parse_specline_def
      media_type_re_examples Simplate_get_renderer_factory_def renderer_re_static
      example_defaults_def)

lemma read_examples:
  "read_resource example_ext ''greet.txt.spt'' = Inr greet_source"
  "read_resource example_ext ''custom.txt.spt'' = Inr custom_source"
  "read_resource example_ext ''leak.txt.spt'' = Inr leak_source"
  "read_resource example_ext ''twice.txt.spt'' = Inr twice_source"
  "read_resource example_ext ''both.txt.spt'' = Inr both_source"
  "read_resource example_ext ''narrow.txt.spt'' = Inr narrow_source"
  "read_resource example_ext ''blank.txt.spt'' = Inr blank_source"
  by (simp_all add: example_ext_def example_read_def)

lemma split_examples:
  "split_and_escape example_ext greet_source
     = [\<lparr>header = [], content = [], offset = 0\<rparr>,
        \<lparr>header = [], content = [], offset = 1\<rparr>,
        \<lparr>header = [], content = ''Greetings, program!'', offset = 2\<rparr>]"
  "split_and_escape example_ext custom_source = logic_pages ''output.body = __file__''"
  "split_and_escape example_ext narrow_source = logic_pages ''__all__ = [str(0)]''"
  "split_and_escape example_ext blank_source = logic_pages ''output.body = str()''"
  "split_and_escape example_ext leak_source
     = [\<lparr>header = [], content = ''x = []'' @ newline, offset = 0\<rparr>,
        \<lparr>header = [], content = ''x.append(1); output.body = len(x)'' @ newline,
          offset = 2\<rparr>,
        \<lparr>header = [], content = ''unused'', offset = 4\<rparr>]"
  "split_and_escape example_ext twice_source
     = [\<lparr>header = [], content = [], offset = 0\<rparr>,
        \<lparr>header = [], content = [], offset = 1\<rparr>,
        \<lparr>header = ''text/html'', content = ''a'' @ newline, offset = 2\<rparr>,
        \<lparr>header = ''text/html'', content = ''b'', offset = 4\<rparr>]"
  "split_and_escape example_ext both_source
     = [\<lparr>header = [], content = [], offset = 0\<rparr>,
        \<lparr>header = [], content = [], offset = 1\<rparr>,
        \<lparr>header = ''text/html'', content = ''a'' @ newline, offset = 2\<rparr>,
        \<lparr>header = ''text/plain'', content = ''b'', offset = 4\<rparr>]"
  by (simp_all add: example_ext_def example_split_def greet_source_def custom_source_def
      narrow_source_def blank_source_def leak_source_def twice_source_def both_source_def
      newline_def)

lemma parse_examples:
  "parse_into_pages (split_and_escape example_ext) greet_source
     = Inr [\<lparr>header = [], content = [], offset = 0\<rparr>,
            \<lparr>header = [], content = [], offset = 1\<rparr>,
            \<lparr>header = [], content = ''Greetings, program!'', offset = 2\<rparr>]"
  "parse_into_pages (split_and_escape example_ext) custom_source
     = Inr (logic_pages ''output.body = __file__'')"
  "parse_into_pages (split_and_escape example_ext) narrow_source
     = Inr (logic_pages ''__all__ = [str(0)]'')"
  "parse_into_pages (split_and_escape example_ext) blank_source
     = Inr (logic_pages ''output.body = str()'')"
  "parse_into_pages (split_and_escape example_ext) leak_source
     = Inr [\<lparr>header = [], content = ''x = []'' @ newline, offset = 0\<rparr>,
            \<lparr>header = [], content = ''x.append(1); output.body = len(x)'' @ newline,
              offset = 2\<rparr>,
            \<lparr>header = [], content = ''unused'', offset = 4\<rparr>]"
  "parse_into_pages (split_and_escape example_ext) twice_source
     = Inr [\<lparr>header = [], content = [], offset = 0\<rparr>,
            \<lparr>header = [], content = [], offset = 1\<rparr>,
            \<lparr>header = ''text/html'', content = ''a'' @ newline, offset = 2\<rparr>,
            \<lparr>header = ''text/html'', content = ''b'', offset = 4\<rparr>]"
  "parse_into_pages (split_and_escape example_ext) both_source
     = Inr [\<lparr>header = [], content = [], offset = 0\<rparr>,
            \<lparr>header = [], content = [], offset = 1\<rparr>,
            \<lparr>header = ''text/html'', content = ''a'' @ newline, offset = 2\<rparr>,
            \<lparr>header = ''text/plain'', content = ''b'', offset = 4\<rparr>]"
  by (simp_all add: parse_into_pages_def split_examples logic_pages_def)

lemma guess_example: "guess_media_type example_ext name = ''text/plain''"
  by (simp add: example_ext_def)

lemma compile_padded:
  "compile example_ext (padded_content p) path = example_compile (content p) path"
  by (simp add: example_ext_def example_compile_def padded_content_def)

lemma example_compile_texts:
  "example_compile [] path = Inr code_pass"
  "example_compile (''x = []'' @ newline) path = Inr code_new_list"
  "example_compile (''x.append(1); output.body = len(x)'' @ newline) path = Inr code_append"
  "example_compile (''output.body = __file__'' @ newline) path = Inr code_set_body"
  "example_compile (''output.body = str()'' @ newline) path = Inr code_blank_body"
  "example_compile (''__all__ = [str(0)]'' @ newline) path = Inr code_all"
  by (simp_all add: example_compile_def newline_def)

lemma compile_page_examples:
  "compile_page example_defaults example_ext path ''text/plain''
     \<lparr>header = [], content = text, offset = k\<rparr> = Inr (static_renderer text, ''text/plain'')"
  "compile_page example_defaults example_ext path ''text/plain''
     \<lparr>header = ''text/html'', content = text, offset = k\<rparr>
   = Inr (static_renderer text, ''text/html'')"
  "compile_page example_defaults example_ext path ''text/plain''
     \<lparr>header = ''text/plain'', content = text, offset = k\<rparr>
   = Inr (static_renderer text, ''text/plain'')"
  by (simp_all add: compile_page_def example_ext_def parse_specline_examples static_factory_def)

lemma initial_context_example: "initial_context example_defaults = Map.empty"
  by (simp add: example_defaults_def)

lemma first_dict:
  "heap0\<lparr>dicts := (dicts heap0)(next_dict heap0 := [''__file__'' \<mapsto> StrV path]
                                                        ++ initial_context example_defaults),
          next_dict := Suc (next_dict heap0)\<rparr> = constructed path"
  by (simp add: heap0_def constructed_def initial_context_example)

lemma compile_pages_logic:
  assumes "example_compile (text @ newline) path = Inr two"
  shows "compile_pages example_defaults example_ext path ''text/plain'' (logic_pages text) heap0
           = (Inr (0, two, [(static_renderer ''unused'', ''text/plain'')]), constructed path)"
  unfolding compile_pages_def logic_pages_def list.case Let_def first_dict compile_padded
  by (simp add: example_compile_texts assms compile_page_examples code_pass_def heap0_def)

lemma compile_pages_greet:
  "compile_pages example_defaults example_ext ''greet.txt.spt'' ''text/plain''
     [\<lparr>header = [], content = [], offset = 0\<rparr>,
      \<lparr>header = [], content = [], offset = 1\<rparr>,
      \<lparr>header = [], content = ''Greetings, program!'', offset = 2\<rparr>] heap0
   = (Inr (0, code_pass, [(static_renderer ''Greetings, program!'', ''text/plain'')]),
      constructed ''greet.txt.spt'')"
  unfolding compile_pages_def list.case Let_def first_dict compile_padded
  by (simp add: example_compile_texts compile_page_examples code_pass_def heap0_def)

lemma run_new_list: "code_new_list 0 (constructed ''leak.txt.spt'') = (Inr (), leak_heap)"
  by (simp add: code_new_list_def constructed_def leak_heap_def)

lemma compile_pages_leak:
  "compile_pages example_defaults example_ext ''leak.txt.spt'' ''text/plain''
     [\<lparr>header = [], content = ''x = []'' @ newline, offset = 0\<rparr>,
      \<lparr>header = [], content = ''x.append(1); output.body = len(x)'' @ newline,
        offset = 2\<rparr>,
      \<lparr>header = [], content = ''unused'', offset = 4\<rparr>] heap0
   = (Inr (0, code_append, [(static_renderer ''unused'', ''text/plain'')]), leak_heap)"
  unfolding compile_pages_def list.case Let_def first_dict compile_padded
  by (simp add: example_compile_def newline_def compile_page_examples heap0_def
      run_new_list)

lemma init_greet:
  "Simplate_init example_defaults example_ext ''greet.txt.spt'' heap0
     = (Inr greet_simplate, constructed ''greet.txt.spt'')"
  by (simp only: Simplate_init_def read_examples parse_examples guess_example
      compile_pages_greet Let_def sum.case prod.case)
    (simp add: greet_simplate_def)

lemma init_custom:
  "Simplate_init example_defaults example_ext ''custom.txt.spt'' heap0
     = (Inr custom_simplate, constructed ''custom.txt.spt'')"
  by (simp only: Simplate_init_def read_examples parse_examples guess_example
      compile_pages_logic [OF example_compile_texts(4)] Let_def sum.case prod.case)
    (simp add: custom_simplate_def logic_simplate_def)

lemma init_narrow:
  "Simplate_init example_defaults example_ext ''narrow.txt.spt'' heap0
     = (Inr narrow_simplate, constructed ''narrow.txt.spt'')"
  by (simp only: Simplate_init_def read_examples parse_examples guess_example
      compile_pages_logic [OF example_compile_texts(6)] Let_def sum.case prod.case)
    (simp add: narrow_simplate_def logic_simplate_def)

lemma init_blank:
  "Simplate_init example_defaults example_ext ''blank.txt.spt'' heap0
     = (Inr blank_simplate, constructed ''blank.txt.spt'')"
  by (simp only: Simplate_init_def read_examples parse_examples guess_example
      compile_pages_logic [OF example_compile_texts(5)] Let_def sum.case prod.case)
    (simp add: blank_simplate_def logic_simplate_def)

lemma init_leak:
  "Simplate_init example_defaults example_ext ''leak.txt.spt'' heap0
     = (Inr leak_simplate, leak_heap)"
  by (simp only: Simplate_init_def read_examples parse_examples guess_example
      compile_pages_leak Let_def sum.case prod.case)
    (simp add: leak_simplate_def logic_simplate_def)


subsection \<open>Rendering\<close>

lemma output_at_Inr:
  "output_at os a = Inr out \<longleftrightarrow> a < length os \<and> os ! a = OutputO out"
  by (auto simp: output_at_def deref_def split: obj.splits)

lemma update_with_itself: "(m(k \<mapsto> v) ++ m)(k \<mapsto> v) = m(k \<mapsto> v)"
  by (rule ext) (simp add: map_add_def split: option.split)

text \<open>What the first three statements do to the store: one new object, and one dict
  written, the caller's.\<close>

lemma render_context_store:
  assumes "render_context self mtype context h = (output, h3)"
  shows "output = length (objs h)"
    and "objs h3 = objs h @ [OutputO (Output mtype)]"
    and "next_dict h3 = next_dict h"
    and "c \<noteq> context \<Longrightarrow> dicts h3 c = dicts h c"
    and "dicts h3 context =
           (if context = page_one self then (dicts h context)(''output'' \<mapsto> Ref output)
            else (dicts h context)(''output'' \<mapsto> Ref output) ++ dicts h (page_one self))"
  using assms by (auto simp: render_context_def Let_def update_with_itself)

lemma render_context_run_once_names:
  assumes "render_context self mtype context h = (output, h3)"
    and "dicts h (page_one self) n = Some v" and "n \<noteq> ''output''"
  shows "dicts h3 context n = Some v"
  using assms by (auto simp: render_context_def Let_def map_add_Some_iff)

lemma render_for_type_raises:
  assumes "render_context self mtype context h = (output, h3)"
    and "page_two self context h3 = (Inl e, h4)"
  shows "render_for_type self mtype context h = (Inl e, h4)"
  using assms by (simp add: render_for_type_def)

lemma render_for_type_body_set:
  assumes "render_context self mtype context h = (output, h3)"
    and "page_two self context h3 = (Inr (), h4)"
    and "output_at (objs h4) output = Inr out"
    and "body out \<noteq> NoneV"
  shows "render_for_type self mtype context h = (Inr output, h4)"
  using assms by (simp add: render_for_type_def)

lemma render_for_type_body_unset:
  assumes "render_context self mtype context h = (output, h3)"
    and "page_two self context h3 = (Inr (), h4)"
    and "output_at (objs h4) output = Inr out"
    and "body out = NoneV"
    and "template_context (dicts h4 context) (objs h4) = Inr context'"
  shows "render_for_type self mtype context h =
           (case renderers self mtype of
              None \<Rightarrow> (Inl (KeyError (StrV mtype)), h4)
            | Some render \<Rightarrow>
                (case render context' (objs h4) of
                   Inl e \<Rightarrow> (Inl e, h4)
                 | Inr b \<Rightarrow> (Inr output,
                             h4\<lparr>objs := (objs h4)[output := OutputO (out\<lparr>body := b\<rparr>)]\<rparr>)))"
  using assms by (simp add: render_for_type_def)

text \<open>After the second page, a call writes at most the body of its Output.\<close>

lemma render_for_type_after_page_two:
  assumes "render_context self mtype context h = (output, h3)"
    and "page_two self context h3 = (r, h4)"
  shows "\<exists>res h5. render_for_type self mtype context h = (res, h5)
           \<and> dicts h5 = dicts h4 \<and> next_dict h5 = next_dict h4
           \<and> length (objs h5) = length (objs h4)
           \<and> (\<forall>x. x \<noteq> output \<longrightarrow> objs h5 ! x = objs h4 ! x)
           \<and> (\<forall>e. r = Inl e \<longrightarrow> res = Inl e \<and> h5 = h4)"
  using assms
  by (cases r)
    (auto simp: render_for_type_def split: sum.splits option.splits)

text \<open>
  C3 (as amended). When the second page has run and left a body other than \<^verbatim>\<open>None\<close>
  in the Output (an empty string is such a body), \<^verbatim>\<open>render_for_type\<close> returns that
  Output as it is, whatever \<^verbatim>\<open>renderers\<close> holds: no renderer is called. When the body
  is still \<^verbatim>\<open>None\<close>, the template context can be built and a renderer is registered
  for the media type, that renderer is called with the template context, and what it
  returns becomes the body of the returned Output (what it raises is raised).
\<close>

theorem render_for_type_body_or_renderer:
  assumes "render_context self mtype context h = (output, h3)"
    and "page_two self context h3 = (Inr (), h4)"
    and "output_at (objs h4) output = Inr out"
  shows "(body out \<noteq> NoneV \<longrightarrow>
            (\<forall>rs. render_for_type (self\<lparr>renderers := rs\<rparr>) mtype context h
                    = (Inr output, h4)))
       \<and> (body out = NoneV \<longrightarrow>
            (\<forall>context' render.
               template_context (dicts h4 context) (objs h4) = Inr context'
               \<longrightarrow> renderers self mtype = Some render
               \<longrightarrow> render_for_type self mtype context h
                     = (case render context' (objs h4) of
                          Inl e \<Rightarrow> (Inl e, h4)
                        | Inr b \<Rightarrow>
                            (Inr output,
                             h4\<lparr>objs := (objs h4)[output := OutputO (out\<lparr>body := b\<rparr>)]\<rparr>))))"
proof (intro conjI impI allI)
  fix rs
  assume b: "body out \<noteq> NoneV"
  from assms(1) have "render_context (self\<lparr>renderers := rs\<rparr>) mtype context h = (output, h3)"
    by (simp add: render_context_def)
  moreover from assms(2) have "page_two (self\<lparr>renderers := rs\<rparr>) context h3 = (Inr (), h4)"
    by simp
  ultimately show "render_for_type (self\<lparr>renderers := rs\<rparr>) mtype context h
                     = (Inr output, h4)"
    using assms(3) b by (rule render_for_type_body_set)
next
  fix context' render
  assume "body out = NoneV" "template_context (dicts h4 context) (objs h4) = Inr context'"
    "renderers self mtype = Some render"
  with assms show "render_for_type self mtype context h
                     = (case render context' (objs h4) of
                          Inl e \<Rightarrow> (Inl e, h4)
                        | Inr b \<Rightarrow>
                            (Inr output,
                             h4\<lparr>objs := (objs h4)[output := OutputO (out\<lparr>body := b\<rparr>)]\<rparr>))"
    by (simp add: render_for_type_body_unset)
qed

text \<open>
  C10. For every media type, registered or not: when the second page has run and set
  the body of the Output to a value other than \<^verbatim>\<open>None\<close>, \<^verbatim>\<open>render_for_type\<close> returns
  the Output with that media type and that body and raises nothing; \<^verbatim>\<open>renderers\<close> is
  looked up only when the body is still \<^verbatim>\<open>None\<close>.
\<close>

theorem render_for_type_body_set_any_media_type:
  assumes "render_context self mtype context h = (output, h3)"
    and "page_two self context h3 = (Inr (), h4)"
    and "output_at (objs h4) output = Inr ((Output mtype)\<lparr>body := b\<rparr>)"
    and "b \<noteq> NoneV"
  shows "render_for_type self mtype context h = (Inr output, h4)
       \<and> output_at (objs h4) output = Inr \<lparr>media_type = mtype, body = b\<rparr>"
  using render_for_type_body_set [OF assms(1-3)] assms(3,4)
  by (simp add: Output_def)

text \<open>
  C7 (as amended). For a simplate that construction returned and a media type that is
  not among its available types: when the second page runs without raising and leaves
  the body \<^verbatim>\<open>None\<close>, and the template context can be built, \<^verbatim>\<open>render_for_type\<close>
  raises the KeyError of \<^verbatim>\<open>self.renderers[media_type]\<close>.
\<close>

theorem render_for_type_unsupported:
  assumes "Simplate_init defaults ext path h0 = (Inr self, h1)"
    and "mtype \<notin> set (available_types self)"
    and "render_context self mtype context h = (output, h3)"
    and "page_two self context h3 = (Inr (), h4)"
    and "output_at (objs h4) output = Inr out"
    and "body out = NoneV"
    and "template_context (dicts h4 context) (objs h4) = Inr context'"
  shows "render_for_type self mtype context h = (Inl (KeyError (StrV mtype)), h4)"
proof -
  from Simplate_init_available_types [OF assms(1)] assms(2)
  have "renderers self mtype = None"
    by auto
  with render_for_type_body_unset [OF assms(3-7)] show ?thesis
    by simp
qed

text \<open>
  C8 (as amended). Every call of \<^verbatim>\<open>render_for_type\<close>, whether it returns or raises,
  first stores the new Output at the address that was free, writes the binding of
  \<^verbatim>\<open>output\<close> and then the bindings of the first page into the caller's dict, and leaves
  every other dict as it was (the dict of the first page is written only when it is
  itself the caller's dict); it then executes the second page in the caller's dict on
  that store, and after the second page it writes nothing but the body of the new
  Output. When the second page raises, the call raises the same, with the store as the
  second page left it.
\<close>

theorem render_for_type_effects:
  "\<exists>h3 r h4.
     objs h3 = objs h @ [OutputO (Output mtype)]
     \<and> next_dict h3 = next_dict h
     \<and> (\<forall>c. c \<noteq> context \<longrightarrow> dicts h3 c = dicts h c)
     \<and> dicts h3 context =
         (if context = page_one self
          then (dicts h context)(''output'' \<mapsto> Ref (length (objs h)))
          else (dicts h context)(''output'' \<mapsto> Ref (length (objs h)))
                 ++ dicts h (page_one self))
     \<and> page_two self context h3 = (r, h4)
     \<and> (\<exists>res h5. render_for_type self mtype context h = (res, h5)
           \<and> dicts h5 = dicts h4 \<and> next_dict h5 = next_dict h4
           \<and> length (objs h5) = length (objs h4)
           \<and> (\<forall>x. x \<noteq> length (objs h) \<longrightarrow> objs h5 ! x = objs h4 ! x)
           \<and> (\<forall>e. r = Inl e \<longrightarrow> res = Inl e \<and> h5 = h4))"
proof -
  obtain a h3 where c: "render_context self mtype context h = (a, h3)"
    by (cases "render_context self mtype context h")
  obtain r h4 where p: "page_two self context h3 = (r, h4)"
    by (cases "page_two self context h3")
  note s = render_context_store [OF c]
  from render_for_type_after_page_two [OF c p] s(1)
  have "\<exists>res h5. render_for_type self mtype context h = (res, h5)
           \<and> dicts h5 = dicts h4 \<and> next_dict h5 = next_dict h4
           \<and> length (objs h5) = length (objs h4)
           \<and> (\<forall>x. x \<noteq> length (objs h) \<longrightarrow> objs h5 ! x = objs h4 ! x)
           \<and> (\<forall>e. r = Inl e \<longrightarrow> res = Inl e \<and> h5 = h4)"
    by simp
  moreover have "\<forall>c. c \<noteq> context \<longrightarrow> dicts h3 c = dicts h c"
    using s(4) by blast
  moreover have "dicts h3 context =
         (if context = page_one self
          then (dicts h context)(''output'' \<mapsto> Ref (length (objs h)))
          else (dicts h context)(''output'' \<mapsto> Ref (length (objs h)))
                 ++ dicts h (page_one self))"
    using s(5) s(1) by simp
  ultimately show ?thesis
    using s(2,3) p by blast
qed

text \<open>
  C2 (as amended). Between two calls nothing is copied back or reset. The second page
  of the second call starts with every object, other than the Output of the first
  call, and every dict, other than the second caller's, exactly as the second page of
  the first call left them, and with every name of the dict of the first page (other
  than \<^verbatim>\<open>output\<close>) bound in its context to the value that dict holds then, a reference
  being the same reference: an object that the first call mutated in place is seen
  mutated. The second call executes its second page on that store and keeps what it
  leaves.
\<close>

theorem render_for_type_second_call:
  assumes "render_context self mtype1 context1 h = (output1, hs1)"
    and "page_two self context1 hs1 = (r1, hp1)"
    and "render_for_type self mtype1 context1 h = (res1, h1)"
    and "render_context self mtype2 context2 h1 = (output2, hs2)"
  shows "(\<forall>x. x < length (objs hp1) \<longrightarrow> x \<noteq> output1 \<longrightarrow> objs hs2 ! x = objs hp1 ! x)
       \<and> (\<forall>c. c \<noteq> context2 \<longrightarrow> dicts hs2 c = dicts hp1 c)
       \<and> (\<forall>n v. dicts hp1 (page_one self) n = Some v \<longrightarrow> n \<noteq> ''output''
                 \<longrightarrow> dicts hs2 context2 n = Some v)
       \<and> (\<forall>r2 hp2. page_two self context2 hs2 = (r2, hp2) \<longrightarrow>
            (\<exists>res2 h2. render_for_type self mtype2 context2 h1 = (res2, h2)
               \<and> dicts h2 = dicts hp2
               \<and> length (objs h2) = length (objs hp2)
               \<and> (\<forall>x. x \<noteq> output2 \<longrightarrow> objs h2 ! x = objs hp2 ! x)))"
proof -
  from render_for_type_after_page_two [OF assms(1,2)] assms(3)
  have d: "dicts h1 = dicts hp1" and l: "length (objs h1) = length (objs hp1)"
    and o: "\<forall>x. x \<noteq> output1 \<longrightarrow> objs h1 ! x = objs hp1 ! x"
    by auto
  note s = render_context_store [OF assms(4)]
  have "\<forall>x. x < length (objs hp1) \<longrightarrow> x \<noteq> output1 \<longrightarrow> objs hs2 ! x = objs hp1 ! x"
    using s(2) l o by (simp add: nth_append)
  moreover have "\<forall>c. c \<noteq> context2 \<longrightarrow> dicts hs2 c = dicts hp1 c"
    using s(4) d by simp
  moreover have "\<forall>n v. dicts hp1 (page_one self) n = Some v \<longrightarrow> n \<noteq> ''output''
                   \<longrightarrow> dicts hs2 context2 n = Some v"
    using render_context_run_once_names [OF assms(4)] d by simp
  moreover have "\<forall>r2 hp2. page_two self context2 hs2 = (r2, hp2) \<longrightarrow>
            (\<exists>res2 h2. render_for_type self mtype2 context2 h1 = (res2, h2)
               \<and> dicts h2 = dicts hp2
               \<and> length (objs h2) = length (objs hp2)
               \<and> (\<forall>x. x \<noteq> output2 \<longrightarrow> objs h2 ! x = objs hp2 ! x))"
    using render_for_type_after_page_two [OF assms(4)] by blast
  ultimately show ?thesis
    by blast
qed

subsection \<open>The example simplates rendered\<close>

lemmas example_simps =
  render_for_type_def render_context_def new_dict_def constructed_def leak_heap_def
  greet_simplate_def custom_simplate_def leak_simplate_def narrow_simplate_def
  blank_simplate_def logic_simplate_def code_pass_def code_set_body_def set_body_def
  code_blank_body_def code_all_def code_append_def output_at_def deref_def Output_def
  template_context_def iterate_def getitem_def static_renderer_def two_callers_def

lemma render_greet:
  "fst (render_for_type greet_simplate ''text/plain'' 1
          (new_dict Map.empty (constructed ''greet.txt.spt''))) = Inr 0"
  "objs (snd (render_for_type greet_simplate ''text/plain'' 1
          (new_dict Map.empty (constructed ''greet.txt.spt''))))
     = [OutputO \<lparr>media_type = ''text/plain'', body = StrV ''Greetings, program!''\<rparr>]"
  "dicts (snd (render_for_type greet_simplate ''text/plain'' 1
          (new_dict Map.empty (constructed ''greet.txt.spt'')))) 1
     = [''output'' \<mapsto> Ref 0, ''__file__'' \<mapsto> StrV ''greet.txt.spt'']"
  by (simp_all add: example_simps)

lemma render_greet_json:
  "fst (render_for_type greet_simplate ''application/json'' 1
          (new_dict Map.empty (constructed ''greet.txt.spt'')))
     = Inl (KeyError (StrV ''application/json''))"
  "dicts (snd (render_for_type greet_simplate ''application/json'' 1
          (new_dict Map.empty (constructed ''greet.txt.spt'')))) 1
     = [''output'' \<mapsto> Ref 0, ''__file__'' \<mapsto> StrV ''greet.txt.spt'']"
  by (simp_all add: example_simps)

lemma render_greet_alias:
  "dicts (snd (render_for_type greet_simplate ''text/plain'' 0
          (constructed ''greet.txt.spt''))) 0
     = [''__file__'' \<mapsto> StrV ''greet.txt.spt'', ''output'' \<mapsto> Ref 0]"
  by (simp_all add: example_simps)

lemma render_custom:
  "fst (render_for_type custom_simplate mtype 1
          (new_dict Map.empty (constructed ''custom.txt.spt''))) = Inr 0"
  "objs (snd (render_for_type custom_simplate mtype 1
          (new_dict Map.empty (constructed ''custom.txt.spt''))))
     = [OutputO \<lparr>media_type = mtype, body = StrV ''custom.txt.spt''\<rparr>]"
  by (simp_all add: example_simps)

lemma render_narrow:
  "fst (render_for_type narrow_simplate ''text/plain'' 1
          (new_dict Map.empty (constructed ''narrow.txt.spt''))) = Inl (KeyError (StrV ''0''))"
  by (simp_all add: example_simps)

lemma render_blank:
  "fst (render_for_type blank_simplate ''text/plain'' 1
          (new_dict Map.empty (constructed ''blank.txt.spt''))) = Inr 0"
  "objs (snd (render_for_type blank_simplate ''text/plain'' 1
          (new_dict Map.empty (constructed ''blank.txt.spt''))))
     = [OutputO \<lparr>media_type = ''text/plain'', body = StrV []\<rparr>]"
  by (simp_all add: example_simps)

lemma render_leak_first:
  "fst (render_for_type leak_simplate ''text/plain'' 1
          two_callers) = Inr 1"
  "objs (snd (render_for_type leak_simplate ''text/plain'' 1
          two_callers))
     = [ListO [IntV 1], OutputO \<lparr>media_type = ''text/plain'', body = IntV 1\<rparr>]"
  by (simp_all add: example_simps)

lemma render_leak_second:
  "fst (render_for_type leak_simplate ''text/plain'' 2
          (snd (render_for_type leak_simplate ''text/plain'' 1 two_callers))) = Inr 2"
  "objs (snd (render_for_type leak_simplate ''text/plain'' 2
          (snd (render_for_type leak_simplate ''text/plain'' 1 two_callers))))
     = [ListO [IntV 1, IntV 1], OutputO \<lparr>media_type = ''text/plain'', body = IntV 1\<rparr>,
        OutputO \<lparr>media_type = ''text/plain'', body = IntV 2\<rparr>]"
  by (simp_all add: example_simps)

lemma render_context_pair:
  "render_context self mtype context h
     = (length (objs h), snd (render_context self mtype context h))"
  by (simp add: render_context_def Let_def)

text \<open>With the body set to the empty string by the second page, a simplate with no
  renderer at all returns the Output with that body; with the body unset, the renderer
  of the page gives the body.\<close>

theorem render_for_type_body_or_renderer_witness:
  "fst (render_for_type (blank_simplate\<lparr>renderers := Map.empty\<rparr>) ''text/plain'' 1
          (new_dict Map.empty (constructed ''blank.txt.spt''))) = Inr 0
   \<and> objs (snd (render_for_type (blank_simplate\<lparr>renderers := Map.empty\<rparr>) ''text/plain'' 1
          (new_dict Map.empty (constructed ''blank.txt.spt''))))
       = [OutputO \<lparr>media_type = ''text/plain'', body = StrV []\<rparr>]
   \<and> renderers greet_simplate ''text/plain'' = Some (static_renderer ''Greetings, program!'')
   \<and> fst (render_for_type greet_simplate ''text/plain'' 1
          (new_dict Map.empty (constructed ''greet.txt.spt''))) = Inr 0
   \<and> objs (snd (render_for_type greet_simplate ''text/plain'' 1
          (new_dict Map.empty (constructed ''greet.txt.spt''))))
       = [OutputO \<lparr>media_type = ''text/plain'', body = StrV ''Greetings, program!''\<rparr>]"
proof -
  let ?hb = "new_dict Map.empty (constructed ''blank.txt.spt'')"
  let ?hb3 = "snd (render_context blank_simplate ''text/plain'' 1 ?hb)"
  let ?hb4 = "snd (page_two blank_simplate 1 ?hb3)"
  have bp: "page_two blank_simplate 1 ?hb3 = (Inr (), ?hb4)"
    by (simp add: example_simps)
  have bo: "output_at (objs ?hb4) (length (objs ?hb))
              = Inr \<lparr>media_type = ''text/plain'', body = StrV []\<rparr>"
    by (simp add: example_simps)
  let ?hg = "new_dict Map.empty (constructed ''greet.txt.spt'')"
  let ?hg3 = "snd (render_context greet_simplate ''text/plain'' 1 ?hg)"
  let ?hg4 = "snd (page_two greet_simplate 1 ?hg3)"
  have gp: "page_two greet_simplate 1 ?hg3 = (Inr (), ?hg4)"
    by (simp add: example_simps)
  have go: "output_at (objs ?hg4) (length (objs ?hg)) = Inr (Output ''text/plain'')"
    by (simp add: example_simps)
  have gt: "template_context (dicts ?hg4 1) (objs ?hg4) = Inr (dicts ?hg4 1)"
    by (simp add: example_simps)
  have gr: "renderers greet_simplate ''text/plain''
              = Some (static_renderer ''Greetings, program!'')"
    by (simp add: greet_simplate_def)
  from render_for_type_body_or_renderer [OF render_context_pair bp bo]
    render_for_type_body_or_renderer [OF render_context_pair gp go] gt gr
  show ?thesis
    by (simp add: example_simps)
qed

text \<open>Two compiled simplates with a renderer for \<^verbatim>\<open>text/plain\<close>. The second page of
  the first leaves the body unset and binds \<^verbatim>\<open>__all__\<close> to a list with a name that is
  not bound: the call raises KeyError and the Output keeps no body. The second page of
  the second sets the body to the empty string: the call returns the Output with the
  empty body, not with the text of the renderer.\<close>

theorem render_for_type_renderer_counterexample:
  "Simplate_init example_defaults example_ext ''narrow.txt.spt'' heap0
     = (Inr narrow_simplate, constructed ''narrow.txt.spt'')
   \<and> renderers narrow_simplate ''text/plain'' = Some (static_renderer ''unused'')
   \<and> fst (render_for_type narrow_simplate ''text/plain'' 1
          (new_dict Map.empty (constructed ''narrow.txt.spt''))) = Inl (KeyError (StrV ''0''))
   \<and> objs (snd (render_for_type narrow_simplate ''text/plain'' 1
          (new_dict Map.empty (constructed ''narrow.txt.spt'')))) ! 0
       = OutputO \<lparr>media_type = ''text/plain'', body = NoneV\<rparr>
   \<and> Simplate_init example_defaults example_ext ''blank.txt.spt'' heap0
       = (Inr blank_simplate, constructed ''blank.txt.spt'')
   \<and> renderers blank_simplate ''text/plain'' = Some (static_renderer ''unused'')
   \<and> fst (render_for_type blank_simplate ''text/plain'' 1
          (new_dict Map.empty (constructed ''blank.txt.spt''))) = Inr 0
   \<and> objs (snd (render_for_type blank_simplate ''text/plain'' 1
          (new_dict Map.empty (constructed ''blank.txt.spt''))))
       = [OutputO \<lparr>media_type = ''text/plain'', body = StrV []\<rparr>]"
proof -
  have r: "renderers narrow_simplate ''text/plain'' = Some (static_renderer ''unused'')"
    "renderers blank_simplate ''text/plain'' = Some (static_renderer ''unused'')"
    by (simp_all add: narrow_simplate_def blank_simplate_def logic_simplate_def)
  have o: "objs (snd (render_for_type narrow_simplate ''text/plain'' 1
          (new_dict Map.empty (constructed ''narrow.txt.spt'')))) ! 0
       = OutputO \<lparr>media_type = ''text/plain'', body = NoneV\<rparr>"
    by (simp add: example_simps)
  from init_narrow init_blank render_narrow render_blank r o show ?thesis
    by (simp only: simp_thms)
qed

text \<open>The simplate whose second page sets the body, asked for \<^verbatim>\<open>text/csv\<close>, which it has
  no template page for.\<close>

theorem render_for_type_body_set_any_media_type_witness:
  "''text/csv'' \<notin> set (available_types custom_simplate)
   \<and> renderers custom_simplate ''text/csv'' = None
   \<and> render_for_type custom_simplate ''text/csv'' 1
         (new_dict Map.empty (constructed ''custom.txt.spt''))
       = (Inr 0, snd (page_two custom_simplate 1
                        (snd (render_context custom_simplate ''text/csv'' 1
                                (new_dict Map.empty (constructed ''custom.txt.spt''))))))
   \<and> objs (snd (render_for_type custom_simplate ''text/csv'' 1
         (new_dict Map.empty (constructed ''custom.txt.spt''))))
       = [OutputO \<lparr>media_type = ''text/csv'', body = StrV ''custom.txt.spt''\<rparr>]"
proof -
  let ?h = "new_dict Map.empty (constructed ''custom.txt.spt'')"
  let ?h3 = "snd (render_context custom_simplate ''text/csv'' 1 ?h)"
  let ?h4 = "snd (page_two custom_simplate 1 ?h3)"
  have p: "page_two custom_simplate 1 ?h3 = (Inr (), ?h4)"
    by (simp add: example_simps)
  have o: "output_at (objs ?h4) (length (objs ?h))
             = Inr ((Output ''text/csv'')\<lparr>body := StrV ''custom.txt.spt''\<rparr>)"
    by (simp add: example_simps)
  have n: "StrV ''custom.txt.spt'' \<noteq> NoneV"
    by simp
  have a: "''text/csv'' \<notin> set (available_types custom_simplate)"
    "renderers custom_simplate ''text/csv'' = None"
    "length (objs ?h) = 0"
    by (simp_all add: custom_simplate_def logic_simplate_def new_dict_def constructed_def)
  have r: "objs (snd (render_for_type custom_simplate ''text/csv'' 1 ?h))
             = [OutputO \<lparr>media_type = ''text/csv'', body = StrV ''custom.txt.spt''\<rparr>]"
    by (rule render_custom(2))
  from render_for_type_body_set_any_media_type [OF render_context_pair p o n]
  have "render_for_type custom_simplate ''text/csv'' 1 ?h = (Inr (length (objs ?h)), ?h4)"
    by blast
  with a r show ?thesis
    by (simp only: simp_thms)
qed

text \<open>The second page of this simplate sets the body: asked for \<^verbatim>\<open>application/json\<close>,
  which is not among its available types, it returns an Output and raises nothing.\<close>

theorem render_for_type_unsupported_counterexample:
  "Simplate_init example_defaults example_ext ''custom.txt.spt'' heap0
     = (Inr custom_simplate, constructed ''custom.txt.spt'')
   \<and> ''application/json'' \<notin> set (available_types custom_simplate)
   \<and> fst (render_for_type custom_simplate ''application/json'' 1
          (new_dict Map.empty (constructed ''custom.txt.spt''))) = Inr 0
   \<and> objs (snd (render_for_type custom_simplate ''application/json'' 1
          (new_dict Map.empty (constructed ''custom.txt.spt''))))
       = [OutputO \<lparr>media_type = ''application/json'', body = StrV ''custom.txt.spt''\<rparr>]"
proof -
  have "''application/json'' \<notin> set (available_types custom_simplate)"
    by (simp add: custom_simplate_def logic_simplate_def)
  with init_custom render_custom [of "''application/json''"] show ?thesis
    by (simp only: simp_thms)
qed

text \<open>The greeting has a template page for \<^verbatim>\<open>text/plain\<close> only and an empty second
  page: asked for \<^verbatim>\<open>application/json\<close> it raises the KeyError.\<close>

theorem render_for_type_unsupported_witness:
  "Simplate_init example_defaults example_ext ''greet.txt.spt'' heap0
     = (Inr greet_simplate, constructed ''greet.txt.spt'')
   \<and> ''application/json'' \<notin> set (available_types greet_simplate)
   \<and> body (Output ''application/json'') = NoneV
   \<and> fst (render_for_type greet_simplate ''application/json'' 1
          (new_dict Map.empty (constructed ''greet.txt.spt'')))
       = Inl (KeyError (StrV ''application/json''))"
proof -
  let ?h = "new_dict Map.empty (constructed ''greet.txt.spt'')"
  let ?h3 = "snd (render_context greet_simplate ''application/json'' 1 ?h)"
  let ?h4 = "snd (page_two greet_simplate 1 ?h3)"
  have a: "''application/json'' \<notin> set (available_types greet_simplate)"
    by (simp add: greet_simplate_def)
  have p: "page_two greet_simplate 1 ?h3 = (Inr (), ?h4)"
    by (simp add: example_simps)
  have o: "output_at (objs ?h4) (length (objs ?h)) = Inr (Output ''application/json'')"
    by (simp add: example_simps)
  have b: "body (Output ''application/json'') = NoneV"
    by (simp add: Output_def)
  have t: "template_context (dicts ?h4 1) (objs ?h4) = Inr (dicts ?h4 1)"
    by (simp add: example_simps)
  from render_for_type_unsupported [OF init_greet a render_context_pair p o b t]
  have "fst (render_for_type greet_simplate ''application/json'' 1 ?h)
          = Inl (KeyError (StrV ''application/json''))"
    by (simp only: fst_conv)
  with a b init_greet show ?thesis
    by (simp only: simp_thms)
qed

text \<open>Rendering the greeting with an empty dict as the context leaves two bindings in
  the caller's dict; rendering it with the dict of the first page as the context
  leaves the binding of \<^verbatim>\<open>output\<close> in that dict.\<close>

theorem render_for_type_context_counterexample:
  "Simplate_init example_defaults example_ext ''greet.txt.spt'' heap0
     = (Inr greet_simplate, constructed ''greet.txt.spt'')
   \<and> dicts (new_dict Map.empty (constructed ''greet.txt.spt'')) 1 = Map.empty
   \<and> fst (render_for_type greet_simplate ''text/plain'' 1
          (new_dict Map.empty (constructed ''greet.txt.spt''))) = Inr 0
   \<and> dicts (snd (render_for_type greet_simplate ''text/plain'' 1
          (new_dict Map.empty (constructed ''greet.txt.spt'')))) 1 ''__file__''
       = Some (StrV ''greet.txt.spt'')
   \<and> page_one greet_simplate = 0
   \<and> dicts (constructed ''greet.txt.spt'') 0 ''output'' = None
   \<and> dicts (snd (render_for_type greet_simplate ''text/plain'' 0
          (constructed ''greet.txt.spt''))) 0 ''output'' = Some (Ref 0)"
proof -
  have a: "dicts (new_dict Map.empty (constructed ''greet.txt.spt'')) 1 = Map.empty"
    "page_one greet_simplate = 0"
    "dicts (constructed ''greet.txt.spt'') 0 ''output'' = None"
    by (simp_all add: new_dict_def constructed_def greet_simplate_def)
  have b: "dicts (snd (render_for_type greet_simplate ''text/plain'' 1
          (new_dict Map.empty (constructed ''greet.txt.spt'')))) 1 ''__file__''
       = Some (StrV ''greet.txt.spt'')"
    by (simp only: render_greet(3)) simp
  have c: "dicts (snd (render_for_type greet_simplate ''text/plain'' 0
          (constructed ''greet.txt.spt''))) 0 ''output'' = Some (Ref 0)"
    by (simp only: render_greet_alias) simp
  from init_greet render_greet(1) a b c show ?thesis
    by (simp only: simp_thms)
qed

text \<open>A call that raises has updated the caller's dict all the same.\<close>

theorem render_for_type_effects_witness:
  "fst (render_for_type greet_simplate ''application/json'' 1
          (new_dict Map.empty (constructed ''greet.txt.spt'')))
     = Inl (KeyError (StrV ''application/json''))
   \<and> dicts (snd (render_for_type greet_simplate ''application/json'' 1
          (new_dict Map.empty (constructed ''greet.txt.spt'')))) 1
       = [''output'' \<mapsto> Ref 0, ''__file__'' \<mapsto> StrV ''greet.txt.spt'']
   \<and> dicts (snd (render_for_type greet_simplate ''application/json'' 1
          (new_dict Map.empty (constructed ''greet.txt.spt'')))) 0
       = dicts (new_dict Map.empty (constructed ''greet.txt.spt'')) 0"
  using render_for_type_effects
    [of "new_dict Map.empty (constructed ''greet.txt.spt'')" "''application/json''" 1
        greet_simplate]
    render_greet_json
  by (simp add: new_dict_def constructed_def render_for_type_def render_context_def
      greet_simplate_def code_pass_def output_at_def deref_def Output_def
      template_context_def)

text \<open>The first page binds \<^verbatim>\<open>x\<close> to a new list, the second page appends to it and
  sets the body to its length. Two callers have a dict each: the call of the first
  gives 1, the call of the second, after it, gives 2, and the list of the first page
  holds what both calls appended.\<close>

theorem render_for_type_leak_counterexample:
  "Simplate_init example_defaults example_ext ''leak.txt.spt'' heap0
     = (Inr leak_simplate, leak_heap)
   \<and> dicts leak_heap (page_one leak_simplate) ''x'' = Some (Ref 0)
   \<and> objs leak_heap = [ListO []]
   \<and> dicts two_callers 1 = [''user'' \<mapsto> StrV ''alice'']
   \<and> dicts two_callers 2 = [''user'' \<mapsto> StrV ''bob'']
   \<and> objs two_callers = objs leak_heap
   \<and> fst (render_for_type leak_simplate ''text/plain'' 1 two_callers) = Inr 1
   \<and> objs (snd (render_for_type leak_simplate ''text/plain'' 1 two_callers))
       = [ListO [IntV 1], OutputO \<lparr>media_type = ''text/plain'', body = IntV 1\<rparr>]
   \<and> fst (render_for_type leak_simplate ''text/plain'' 2
          (snd (render_for_type leak_simplate ''text/plain'' 1 two_callers))) = Inr 2
   \<and> objs (snd (render_for_type leak_simplate ''text/plain'' 2
          (snd (render_for_type leak_simplate ''text/plain'' 1 two_callers))))
       = [ListO [IntV 1, IntV 1], OutputO \<lparr>media_type = ''text/plain'', body = IntV 1\<rparr>,
          OutputO \<lparr>media_type = ''text/plain'', body = IntV 2\<rparr>]"
proof -
  have a: "dicts leak_heap (page_one leak_simplate) ''x'' = Some (Ref 0)"
    "objs leak_heap = [ListO []]"
    by (simp_all add: leak_simplate_def logic_simplate_def leak_heap_def)
  have b: "dicts two_callers 1 = [''user'' \<mapsto> StrV ''alice'']"
    "dicts two_callers 2 = [''user'' \<mapsto> StrV ''bob'']"
    "objs two_callers = objs leak_heap"
    by (simp_all add: two_callers_def new_dict_def leak_heap_def)
  from init_leak a b render_leak_first render_leak_second show ?thesis
    by (simp only: simp_thms)
qed

text \<open>The second call of the same two starts its second page with \<^verbatim>\<open>x\<close> bound to the
  list of the first page, which holds what the first call appended.\<close>

theorem render_for_type_second_call_witness:
  "dicts (snd (render_context leak_simplate ''text/plain'' 2
          (snd (render_for_type leak_simplate ''text/plain'' 1
                  two_callers)))) 2 ''x''
     = Some (Ref 0)
   \<and> objs (snd (render_context leak_simplate ''text/plain'' 2
          (snd (render_for_type leak_simplate ''text/plain'' 1
                  two_callers)))) ! 0
       = ListO [IntV 1]
   \<and> objs leak_heap ! 0 = ListO []"
proof -
  let ?h = "two_callers"
  let ?hs1 = "snd (render_context leak_simplate ''text/plain'' 1 ?h)"
  let ?hp1 = "snd (page_two leak_simplate 1 ?hs1)"
  have p: "page_two leak_simplate 1 ?hs1 = (fst (page_two leak_simplate 1 ?hs1), ?hp1)"
    by simp
  have r: "render_for_type leak_simplate ''text/plain'' 1 ?h
             = (fst (render_for_type leak_simplate ''text/plain'' 1 ?h),
                snd (render_for_type leak_simplate ''text/plain'' 1 ?h))"
    by simp
  have x: "dicts ?hp1 (page_one leak_simplate) ''x'' = Some (Ref 0)"
    "objs ?hp1 ! 0 = ListO [IntV 1]" "0 < length (objs ?hp1)" "0 \<noteq> length (objs ?h)"
    "''x'' \<noteq> ''output''" "objs leak_heap ! 0 = ListO []"
    by (simp_all add: example_simps)
  let ?hs2 = "snd (render_context leak_simplate ''text/plain'' 2
                     (snd (render_for_type leak_simplate ''text/plain'' 1 ?h)))"
  note t = render_for_type_second_call
    [OF render_context_pair p r render_context_pair, of "''text/plain''" 2]
  from t have n: "\<forall>n v. dicts ?hp1 (page_one leak_simplate) n = Some v \<longrightarrow> n \<noteq> ''output''
                     \<longrightarrow> dicts ?hs2 2 n = Some v"
    by (rule conjunct1 [OF conjunct2 [OF conjunct2]])
  from t have o: "\<forall>x. x < length (objs ?hp1) \<longrightarrow> x \<noteq> length (objs ?h)
                     \<longrightarrow> objs ?hs2 ! x = objs ?hp1 ! x"
    by (rule conjunct1)
  from n x(1,5) have "dicts ?hs2 2 ''x'' = Some (Ref 0)"
    by blast
  moreover from o x(3,4) have "objs ?hs2 ! 0 = objs ?hp1 ! 0"
    by blast
  ultimately show ?thesis
    using x(2,6) by (simp only: simp_thms)
qed

end
